theory Spec2Isabelle
  imports Complex_Main "HOL-Library.AList"
begin

section \<open>JavaScript values and errors\<close>

text \<open>
  The values that travel through the result cache and the execution frameworks of
  \<^verbatim>\<open>hypergpu-engine.js\<close>. The frameworks only test these values for truthiness and
  hand them on: a number is the real number it denotes, and \<open>JNaN\<close> stands for the one
  number that is falsy besides zero (the arithmetic of the software fallback has its own
  model of the doubles, below); \<open>JU8C\<close> is a \<^verbatim>\<open>Uint8ClampedArray\<close>.
\<close>

datatype jsval =
    JUndefined
  | JNull
  | JBool bool
  | JNum real
  | JNaN
  | JStr string
  | JU8C "nat list"
  | JArr "jsval list"
  | JObj "(string \<times> jsval) list"

text \<open>The truthiness test of \<^verbatim>\<open>if (x)\<close> and of \<^verbatim>\<open>x || y\<close>.\<close>

fun truthy :: "jsval \<Rightarrow> bool" where
  "truthy JUndefined = False"
| "truthy JNull = False"
| "truthy (JBool b) = b"
| "truthy (JNum x) = (x \<noteq> 0)"
| "truthy JNaN = False"
| "truthy (JStr s) = (s \<noteq> [])"
| "truthy (JU8C bs) = True"
| "truthy (JArr xs) = True"
| "truthy (JObj fs) = True"

text \<open>
  A thrown value: \<open>TypeError\<close> is what a property read on \<^verbatim>\<open>undefined\<close> raises,
  \<open>Error m\<close> is \<^verbatim>\<open>new Error(m)\<close>.
\<close>

datatype error = TypeError | Error string

section \<open>The result cache of \<^verbatim>\<open>createSimpleCache\<close>\<close>

text \<open>
  \<^verbatim>\<open>
  createSimpleCache() {
      return {
          cache: new Map(),
          maxSize: 50,
          get: (key) => this.cache.get(key) || null,
          set: (key, data) => {
              if (this.cache.size >= this.maxSize) {
                  const firstKey = this.cache.keys().next().value;
                  this.cache.delete(firstKey);
              }
              this.cache.set(key, data);
          }, ...
  \<close>
  A JavaScript \<^verbatim>\<open>Map\<close> keeps its keys in insertion order; it is an association list
  with distinct keys, oldest first. \<^verbatim>\<open>Map.set\<close> replaces the value of a present key
  in place and appends an absent one, which is what \<^const>\<open>AList.update\<close> does.

  \<open>get\<close> and \<open>set\<close> read \<^verbatim>\<open>this.cache\<close> and \<^verbatim>\<open>this.maxSize\<close>. The record
  \<open>receiver\<close> holds these two properties of the object that \<^verbatim>\<open>this\<close> names; a
  property the object does not have is \<open>None\<close>, and reading \<^verbatim>\<open>.get\<close> or
  \<^verbatim>\<open>.size\<close> of it raises \<open>TypeError\<close>. The comparison \<^verbatim>\<open>size >= undefined\<close>
  is false.
\<close>

record receiver =
  cache :: "(string \<times> jsval) list option"
  maxSize :: "nat option"

definition cache_get :: "'a receiver_scheme \<Rightarrow> string \<Rightarrow> error + jsval" where
  "cache_get this key =
     (case cache this of
        None \<Rightarrow> Inl TypeError
      | Some m \<Rightarrow>
          Inr (case map_of m key of
                 None \<Rightarrow> JNull
               | Some v \<Rightarrow> if truthy v then v else JNull))"

definition cache_evict :: "(string \<times> jsval) list \<Rightarrow> (string \<times> jsval) list" where
  "cache_evict m = (case m of [] \<Rightarrow> [] | (firstKey, v) # rest \<Rightarrow> AList.delete firstKey m)"

definition cache_full :: "'a receiver_scheme \<Rightarrow> (string \<times> jsval) list \<Rightarrow> bool" where
  "cache_full this m = (case maxSize this of None \<Rightarrow> False | Some n \<Rightarrow> n \<le> length m)"

definition cache_set ::
  "'a receiver_scheme \<Rightarrow> string \<Rightarrow> jsval \<Rightarrow> error + 'a receiver_scheme" where
  "cache_set this key data =
     (case cache this of
        None \<Rightarrow> Inl TypeError
      | Some m \<Rightarrow>
          Inr (this\<lparr>cache :=
                 Some (AList.update key data (if cache_full this m then cache_evict m else m))\<rparr>))"

text \<open>
  The object literal's own two data properties, an empty map and the limit 50: the receiver
  the two methods would act on if \<^verbatim>\<open>this\<close> named the literal. The examples that
  store and read entries start from it.
\<close>

definition createSimpleCache :: receiver where
  "createSimpleCache = \<lparr>cache = Some [], maxSize = Some 50\<rparr>"

section \<open>The resource manager and the observable world\<close>

text \<open>
  \<open>initState.phase\<close> of \<^verbatim>\<open>HyperGpuResourceManager\<close>.
\<close>

datatype phase =
    Ph_not_started | Ph_starting | Ph_environment | Ph_wasm | Ph_webgpu | Ph_memory
  | Ph_validation | Ph_completed | Ph_failed

text \<open>
  The fields of the manager that the modelled methods read or write. The arrow functions
  of \<^verbatim>\<open>createSimpleCache\<close> are created inside a method of the manager, so their
  \<^verbatim>\<open>this\<close> is the manager: the record extends \<open>receiver\<close>, and \<open>cache\<close> and
  \<open>maxSize\<close> are the manager's own properties of these names. \<open>cacheManager\<close> says
  whether the field is non-null; \<open>webgpuCore\<close> is \<open>None\<close> for \<^verbatim>\<open>null\<close> and
  \<open>Some b\<close> for a core whose \<^verbatim>\<open>isInitialized\<close> is \<open>b\<close>; \<open>wasmExports\<close> is
  \<open>None\<close> for \<^verbatim>\<open>null\<close> and otherwise lists the callable exports.

  \<open>wasmMemoryPool\<close> and \<open>webgpuBufferPool\<close> are \<open>None\<close> for \<^verbatim>\<open>null\<close> or hold
  one of the pools that this file builds: those of \<^verbatim>\<open>createSimpleWasmPool\<close> and
  \<^verbatim>\<open>createSimpleBufferPool\<close>, installed by \<^verbatim>\<open>initMemoryOptimization\<close> with the
  simplified memory system, and those of \<^verbatim>\<open>ModuleLoader.createFallbackMemoryOpt\<close>:
  \<^verbatim>\<open>
  wasmPool: { allocate: () => 0, deallocate: () => {}, getStats: () => ({}) },
  bufferPool: { allocateBuffer: () => null, deallocateBuffer: () => {}, getStats: () => ({}) },
  \<close>
  The pools of an external \<^verbatim>\<open>window.HyperGpuMemoryOptimization\<close> are not part of the
  repository.
\<close>

datatype wasm_pool = SimpleWasmPool | FallbackWasmPool

datatype buffer_pool = SimpleBufferPool | FallbackBufferPool

record manager = receiver +
  isInitialized :: bool
  phase :: phase
  attemptCount :: nat
  maxAttempts :: nat
  enabled :: bool
  errors :: "(phase \<times> error \<times> nat) list"
  wasmExports :: "string list option"
  webgpuCore :: "bool option"
  wasmMemoryPool :: "wasm_pool option"
  webgpuBufferPool :: "buffer_pool option"
  cacheManager :: bool

text \<open>
  The constructor: it defines neither \<^verbatim>\<open>cache\<close> nor \<^verbatim>\<open>maxSize\<close>, and neither
  \<^verbatim>\<open>inUse\<close>, \<^verbatim>\<open>stats\<close>, \<^verbatim>\<open>bufferPools\<close> nor \<^verbatim>\<open>inUseBuffers\<close>; no method of
  the class assigns one of them.
\<close>

definition HyperGpuResourceManager :: manager where
  "HyperGpuResourceManager =
     \<lparr>cache = None, maxSize = None, isInitialized = False, phase = Ph_not_started,
      attemptCount = 0, maxAttempts = 3, enabled = True, errors = [],
      wasmExports = None, webgpuCore = None, wasmMemoryPool = None,
      webgpuBufferPool = None, cacheManager = False\<rparr>"

text \<open>
  What the WebAssembly module and the GPU core observe (the instrumentation of the
  specification): every handle they hand out (\<^verbatim>\<open>wasm_alloc\<close>, \<^verbatim>\<open>createBuffer\<close>), every
  handle they get back (\<^verbatim>\<open>free_memory\<close>, \<^verbatim>\<open>destroy\<close>), the kernel and
  pipeline-builder invocations, the phases entered and the delays awaited. \<open>alloc_results\<close>
  is the answer of the module and of the core to the coming allocation requests; \<open>0\<close> is
  a failed allocation (a null pointer, a null buffer), and so is a request that finds no
  answer left.
\<close>

datatype acquire = WasmAlloc nat nat | CreateBuffer nat nat nat

datatype release = FreeMemory nat | BufferDestroy nat

record world =
  alloc_results :: "nat list"
  allocated :: "acquire list"
  released :: "release list"
  invoked :: nat
  pipelines_built :: nat
  phase_log :: "phase list"
  timeouts :: "nat list"

text \<open>The release call that gives back what an allocation call handed out.\<close>

fun returned :: "acquire \<Rightarrow> release" where
  "returned (WasmAlloc ptr sz) = FreeMemory ptr"
| "returned (CreateBuffer buffer sz usage) = BufferDestroy buffer"

section \<open>Initialisation and recovery\<close>

text \<open>
  \<^verbatim>\<open>
  async init() {
      if (this.isInitialized) { HyperGpuLog.warn(...); return; }
      this.initState.phase = 'starting';
      this.initState.recovery.attemptCount++;
      try {
          this.initState.phase = 'environment'; ...
          this.initState.phase = 'wasm';
          await ... this.initWasmModule() ...
  \<close>
  \<open>init_enter\<close> is the code that runs before the first \<^verbatim>\<open>await\<close>: the guard, the
  counter and the entry into the phase sequence. Nothing records that a run is in flight.
\<close>

datatype entry = AlreadyInitialized | RunStarted

definition init_enter :: "manager \<times> world \<Rightarrow> entry \<times> manager \<times> world" where
  "init_enter = (\<lambda>(rm, w).
     if isInitialized rm then (AlreadyInitialized, rm, w)
     else (RunStarted,
           rm\<lparr>phase := Ph_wasm, attemptCount := attemptCount rm + 1\<rparr>,
           w\<lparr>phase_log := phase_log w @ [Ph_environment, Ph_wasm]\<rparr>))"

text \<open>The phases entered after \<open>wasm\<close> when the run fails in phase \<open>p\<close>.\<close>

fun phases_upto :: "phase \<Rightarrow> phase list" where
  "phases_upto Ph_webgpu = [Ph_webgpu]"
| "phases_upto Ph_memory = [Ph_webgpu, Ph_memory]"
| "phases_upto Ph_validation = [Ph_webgpu, Ph_memory, Ph_validation]"
| "phases_upto p = []"

text \<open>The end of the \<^verbatim>\<open>try\<close> block: every phase ran.\<close>

definition init_complete :: "manager \<times> world \<Rightarrow> manager \<times> world" where
  "init_complete = (\<lambda>(rm, w).
     (rm\<lparr>isInitialized := True, phase := Ph_completed\<rparr>,
      w\<lparr>phase_log := phase_log w @ phases_upto Ph_validation\<rparr>))"

text \<open>
  The \<^verbatim>\<open>catch\<close> block up to the recovery decision. The phase is overwritten with
  \<^verbatim>\<open>'failed'\<close> before the error entry reads it.
\<close>

definition init_catch :: "phase \<Rightarrow> error \<Rightarrow> manager \<times> world \<Rightarrow> manager \<times> world" where
  "init_catch p e = (\<lambda>(rm, w).
     (rm\<lparr>phase := Ph_failed, errors := errors rm @ [(Ph_failed, e, attemptCount rm)]\<rparr>,
      w\<lparr>phase_log := phase_log w @ phases_upto p\<rparr>))"

definition shouldAttemptRecovery :: "manager \<Rightarrow> bool" where
  "shouldAttemptRecovery rm = (enabled rm \<and> attemptCount rm < maxAttempts rm)"

text \<open>
  \<^verbatim>\<open>
      } catch (error) { ...
          if (this.shouldAttemptRecovery()) { await this.attemptRecovery(); }
          else { throw error; }
      }
  async attemptRecovery() {
      await new Promise(resolve => setTimeout(resolve, 1000 * this.initState.recovery.attemptCount));
      this.isInitialized = false;
      return this.init();
  }
  \<close>
  The first argument says, for each attempt number, whether the phase sequence of that
  attempt throws, in which phase and what.
\<close>

function init :: "(nat \<Rightarrow> (phase \<times> error) option) \<Rightarrow> manager \<times> world
                    \<Rightarrow> (error + unit) \<times> manager \<times> world"
  and attemptRecovery :: "(nat \<Rightarrow> (phase \<times> error) option) \<Rightarrow> manager \<times> world
                    \<Rightarrow> (error + unit) \<times> manager \<times> world"
where
  "init outcome (rm, w) =
     (if isInitialized rm then (Inr (), rm, w)
      else (case outcome (Suc (attemptCount rm)) of
              None \<Rightarrow> (Inr (), init_complete (snd (init_enter (rm, w))))
            | Some (p, e) \<Rightarrow>
                (if shouldAttemptRecovery (fst (init_catch p e (snd (init_enter (rm, w)))))
                 then attemptRecovery outcome (init_catch p e (snd (init_enter (rm, w))))
                 else (Inl e, init_catch p e (snd (init_enter (rm, w)))))))"
| "attemptRecovery outcome (rm, w) =
     init outcome (rm\<lparr>isInitialized := False\<rparr>,
                   w\<lparr>timeouts := timeouts w @ [1000 * attemptCount rm]\<rparr>)"
  by pat_completeness auto
termination
proof (relation "measure (\<lambda>x. case x of
           Inl (outcome, rm, w) \<Rightarrow> 2 * (maxAttempts rm - attemptCount rm)
         | Inr (outcome, rm, w) \<Rightarrow> 2 * (maxAttempts rm - attemptCount rm) + 1)")
  show "wf (measure (\<lambda>x. case x of
           Inl (outcome, rm, w) \<Rightarrow> 2 * (maxAttempts rm - attemptCount rm)
         | Inr (outcome, rm, w) \<Rightarrow> 2 * (maxAttempts rm - attemptCount rm) + 1))"
    by simp
next
  fix outcome rm w x2 x y
  assume "\<not> isInitialized rm" and "outcome (Suc (attemptCount rm)) = Some x2"
    and "(x, y) = x2"
    and "shouldAttemptRecovery (fst (init_catch x y (snd (init_enter (rm, w)))))"
  then show "(Inr (outcome, init_catch x y (snd (init_enter (rm, w)))), Inl (outcome, rm, w))
      \<in> measure (\<lambda>x. case x of
           Inl (outcome, rm, w) \<Rightarrow> 2 * (maxAttempts rm - attemptCount rm)
         | Inr (outcome, rm, w) \<Rightarrow> 2 * (maxAttempts rm - attemptCount rm) + 1)"
    by (simp add: init_catch_def init_enter_def shouldAttemptRecovery_def) arith
next
  fix outcome rm w
  show "(Inl (outcome, rm\<lparr>isInitialized := False\<rparr>,
              w\<lparr>timeouts := timeouts w @ [1000 * attemptCount rm]\<rparr>),
         Inr (outcome, rm, w))
      \<in> measure (\<lambda>x. case x of
           Inl (outcome, rm, w) \<Rightarrow> 2 * (maxAttempts rm - attemptCount rm)
         | Inr (outcome, rm, w) \<Rightarrow> 2 * (maxAttempts rm - attemptCount rm) + 1)"
    by simp
qed

section \<open>The execution framework over linear memory\<close>

text \<open>
  The serialised fingerprint \<^verbatim>\<open>JSON.stringify(cacheKeyData)\<close> is an argument of the
  model (\<open>fp\<close>). The two cache accesses of both frameworks are
  \<^verbatim>\<open>
  if (this.rm.cacheManager) {
      const cached = this.rm.cacheManager.get(cacheKey);
      if (cached) { return cached; }
  }
  ...
  if (this.rm.cacheManager) { this.rm.cacheManager.set(cacheKey, result); }
  \<close>
  \<open>cache_lookup\<close> answers \<open>Some cached\<close> on the early return.
\<close>

definition cache_lookup :: "manager \<Rightarrow> string \<Rightarrow> error + jsval option" where
  "cache_lookup rm cacheKey =
     (if cacheManager rm
      then (case cache_get rm cacheKey of
              Inl e \<Rightarrow> Inl e
            | Inr cached \<Rightarrow> Inr (if truthy cached then Some cached else None))
      else Inr None)"

definition cache_store :: "manager \<Rightarrow> string \<Rightarrow> jsval \<Rightarrow> error + manager" where
  "cache_store rm cacheKey result =
     (if cacheManager rm then cache_set rm cacheKey result else Inr rm)"

text \<open>
  \<^verbatim>\<open>getWasmExports()\<close> returns \<^verbatim>\<open>this.wasmExports\<close>. Reading a property of
  \<^verbatim>\<open>null\<close> and calling a property that is \<^verbatim>\<open>undefined\<close> both raise
  \<open>TypeError\<close>, so a call \<^verbatim>\<open>wasm.f(...)\<close> is possible exactly when \<open>has_export\<close>
  holds for \<open>f\<close>.
\<close>

definition has_export :: "manager \<Rightarrow> string \<Rightarrow> bool" where
  "has_export rm name =
     (case wasmExports rm of None \<Rightarrow> False | Some exports \<Rightarrow> name \<in> set exports)"

text \<open>
  The export \<^verbatim>\<open>wasm_alloc(size)\<close> of the module: it takes the next answer of the
  environment, and the world records the pointer when it is not null.
\<close>

definition wasm_alloc :: "nat \<Rightarrow> world \<Rightarrow> nat \<times> world" where
  "wasm_alloc sz w =
     (case alloc_results w of
        [] \<Rightarrow> (0, w)
      | ptr # rest \<Rightarrow>
          (ptr, w\<lparr>alloc_results := rest,
                  allocated := (if ptr = 0 then allocated w
                                else allocated w @ [WasmAlloc ptr sz])\<rparr>))"

text \<open>The export \<^verbatim>\<open>free_memory(ptr)\<close> of the module: the world records the call.\<close>

definition free_memory :: "nat \<Rightarrow> world \<Rightarrow> world" where
  "free_memory ptr w = w\<lparr>released := released w @ [FreeMemory ptr]\<rparr>"

text \<open>
  \<^verbatim>\<open>
  createSimpleWasmPool() {
      return {
          pools: new Map(),
          inUse: new Set(),
          stats: { hits: 0, misses: 0, totalAllocations: 0 },
          allocate: (size) => {
              if (!this.wasmExports || !this.wasmExports.wasm_alloc) { return 0; }
              const ptr = this.wasmExports.wasm_alloc(size);
              if (ptr) { this.inUse.add(ptr); this.stats.totalAllocations++; }
              return ptr;
          },
          deallocate: (ptr, size) => {
              if (!this.inUse.has(ptr)) return;
              this.inUse.delete(ptr);
              if (this.wasmExports && this.wasmExports.free_memory) { this.wasmExports.free_memory(ptr); }
          },
          ...
  \<close>
  \<^verbatim>\<open>inUse\<close> and \<^verbatim>\<open>stats\<close> are properties of the object literal. The two methods are
  arrow functions created inside a method of the manager, so their \<^verbatim>\<open>this\<close> is the
  manager, where \<^verbatim>\<open>this.inUse\<close> is \<^verbatim>\<open>undefined\<close>: \<^verbatim>\<open>this.inUse.add(ptr)\<close> raises
  \<open>TypeError\<close> after \<^verbatim>\<open>wasm_alloc\<close> has handed out a pointer, and
  \<^verbatim>\<open>this.inUse.has(ptr)\<close> raises it before anything is given back.
\<close>

definition createSimpleWasmPool_allocate ::
  "manager \<Rightarrow> nat \<Rightarrow> world \<Rightarrow> (error + nat) \<times> world" where
  "createSimpleWasmPool_allocate this sz w =
     (if \<not> has_export this ''wasm_alloc'' then (Inr 0, w)
      else (case wasm_alloc sz w of
              (ptr, w1) \<Rightarrow> if ptr \<noteq> 0 then (Inl TypeError, w1) else (Inr ptr, w1)))"

definition createSimpleWasmPool_deallocate ::
  "manager \<Rightarrow> nat \<Rightarrow> nat \<Rightarrow> world \<Rightarrow> error + world" where
  "createSimpleWasmPool_deallocate this ptr sz w = Inl TypeError"

text \<open>
  \<^verbatim>\<open>
  cleanupWasmMemory(wasm, allocatedPointers) {
      allocatedPointers.forEach(({ ptr, size }) => {
          if (ptr) {
              if (this.rm.wasmMemoryPool) { this.rm.wasmMemoryPool.deallocate(ptr, size); }
              else { wasm.free_memory(ptr); }
          }
      });
  }
  \<close>
  \<open>release_pointer\<close> is the body of the callback for an entry whose pointer is not null.
  An exception raised in the callback ends \<^verbatim>\<open>forEach\<close>: the entries after it are not
  visited, and \<open>cleanupWasmMemory\<close> answers the exception.
\<close>

definition release_pointer :: "manager \<Rightarrow> nat \<times> nat \<Rightarrow> world \<Rightarrow> error + world" where
  "release_pointer rm = (\<lambda>(ptr, sz) w.
     case wasmMemoryPool rm of
       Some SimpleWasmPool \<Rightarrow> createSimpleWasmPool_deallocate rm ptr sz w
     | Some FallbackWasmPool \<Rightarrow> Inr w
     | None \<Rightarrow> if has_export rm ''free_memory'' then Inr (free_memory ptr w) else Inl TypeError)"

fun cleanupWasmMemory :: "manager \<Rightarrow> (nat \<times> nat) list \<Rightarrow> world \<Rightarrow> error option \<times> world" where
  "cleanupWasmMemory rm [] w = (None, w)"
| "cleanupWasmMemory rm (entry # rest) w =
     (if fst entry = 0 then cleanupWasmMemory rm rest w
      else (case release_pointer rm entry w of
              Inl e \<Rightarrow> (Some e, w)
            | Inr w1 \<Rightarrow> cleanupWasmMemory rm rest w1))"

text \<open>
  \<^verbatim>\<open>
  async executeWasmWithMemoryManagement(methodName, setupMemory, executeWasm, cacheKeyData) {
      const wasm = this.rm.getWasmExports();
      const cacheKey = `${methodName}_${JSON.stringify(cacheKeyData)}`;
      (cache check)
      const allocatedPointers = [];
      try {
          const memoryInfo = await setupMemory(wasm, allocatedPointers);
          const result = await executeWasm(wasm, memoryInfo);
          if (this.rm.cacheManager) { this.rm.cacheManager.set(cacheKey, result); }
          return result;
      } finally {
          this.cleanupWasmMemory(wasm, allocatedPointers);
      }
  }
  \<close>
  \<open>setupMemory\<close> receives the world and the release-list and returns what it threw or
  produced, the release-list as it left it, and the world. \<open>executeWasm\<close> is the outcome
  of the kernel call for the memory it is given. \<open>executeWasm_try\<close> is the body of the
  \<^verbatim>\<open>try\<close> block; the framework applies the \<^verbatim>\<open>finally\<close> block to whatever the body
  left, and an exception raised in the \<^verbatim>\<open>finally\<close> block replaces the outcome of the
  body.
\<close>

definition executeWasm_try ::
  "string \<Rightarrow> (error + 'm) \<Rightarrow> ('m \<Rightarrow> error + jsval) \<Rightarrow> manager \<times> world
     \<Rightarrow> (error + jsval) \<times> manager \<times> world" where
  "executeWasm_try cacheKey setupResult executeWasm = (\<lambda>(rm, w).
     case setupResult of
       Inl e \<Rightarrow> (Inl e, rm, w)
     | Inr memoryInfo \<Rightarrow>
         (case executeWasm memoryInfo of
            Inl e \<Rightarrow> (Inl e, rm, w\<lparr>invoked := invoked w + 1\<rparr>)
          | Inr result \<Rightarrow>
              (case cache_store rm cacheKey result of
                 Inl e \<Rightarrow> (Inl e, rm, w\<lparr>invoked := invoked w + 1\<rparr>)
               | Inr rm' \<Rightarrow> (Inr result, rm', w\<lparr>invoked := invoked w + 1\<rparr>))))"

definition executeWasmWithMemoryManagement ::
  "string \<Rightarrow> (world \<Rightarrow> (nat \<times> nat) list \<Rightarrow> (error + 'm) \<times> (nat \<times> nat) list \<times> world)
     \<Rightarrow> ('m \<Rightarrow> error + jsval) \<Rightarrow> string \<Rightarrow> manager \<times> world
     \<Rightarrow> (error + jsval) \<times> manager \<times> world" where
  "executeWasmWithMemoryManagement methodName setupMemory executeWasm fp = (\<lambda>(rm, w).
     case cache_lookup rm (methodName @ ''_'' @ fp) of
       Inl e \<Rightarrow> (Inl e, rm, w)
     | Inr (Some cached) \<Rightarrow> (Inr cached, rm, w)
     | Inr None \<Rightarrow>
         (case setupMemory w [] of
            (setupResult, allocatedPointers, w1) \<Rightarrow>
              (case executeWasm_try (methodName @ ''_'' @ fp) setupResult executeWasm (rm, w1) of
                 (outcome, rm2, w2) \<Rightarrow>
                   (case cleanupWasmMemory rm2 allocatedPointers w2 of
                      (None, w3) \<Rightarrow> (outcome, rm2, w3)
                    | (Some e, w3) \<Rightarrow> (Inl e, rm2, w3)))))"

text \<open>
  The \<^verbatim>\<open>setupMemory\<close> closures of the four handlers
  (\<^verbatim>\<open>handleNormalizeVector\<close>, \<^verbatim>\<open>handleMultiplyMat4\<close>, \<^verbatim>\<open>handleSuperResolution\<close>,
  \<^verbatim>\<open>handlePreprocessParticles\<close>) allocate one or three regions this way and then copy
  the input into them:
  \<^verbatim>\<open>
  if (this.rm.wasmMemoryPool) { ptr = this.rm.wasmMemoryPool.allocate(size); }
  else { ptr = wasm.wasm_alloc(size); }
  if (!ptr) throw new Error("Failed to allocate WASM memory");
  allocatedPointers.push({ ptr, size });
  \<close>
  \<open>allocate\<close> is the first statement, \<open>allocate_all\<close> the four statements for each
  region in turn: an exception of the first statement leaves the closure before the push.
  \<open>marshal\<close> is the outcome of the copying (\<^verbatim>\<open>get_memory\<close>, the typed-array views,
  \<^verbatim>\<open>set\<close>) for the pointers obtained.
\<close>

definition allocate :: "manager \<Rightarrow> nat \<Rightarrow> world \<Rightarrow> (error + nat) \<times> world" where
  "allocate rm sz w =
     (case wasmMemoryPool rm of
        Some SimpleWasmPool \<Rightarrow> createSimpleWasmPool_allocate rm sz w
      | Some FallbackWasmPool \<Rightarrow> (Inr 0, w)
      | None \<Rightarrow>
          if has_export rm ''wasm_alloc''
          then (case wasm_alloc sz w of (ptr, w1) \<Rightarrow> (Inr ptr, w1))
          else (Inl TypeError, w))"

fun allocate_all :: "manager \<Rightarrow> nat list \<Rightarrow> world \<Rightarrow> (nat \<times> nat) list
                       \<Rightarrow> (error + nat list) \<times> (nat \<times> nat) list \<times> world" where
  "allocate_all rm [] w allocatedPointers = (Inr [], allocatedPointers, w)"
| "allocate_all rm (sz # sizes) w allocatedPointers =
     (case allocate rm sz w of
        (Inl e, w1) \<Rightarrow> (Inl e, allocatedPointers, w1)
      | (Inr ptr, w1) \<Rightarrow>
          if ptr = 0 then (Inl (Error ''Failed to allocate WASM memory''), allocatedPointers, w1)
          else (case allocate_all rm sizes w1 (allocatedPointers @ [(ptr, sz)]) of
                  (Inl e, ps, w2) \<Rightarrow> (Inl e, ps, w2)
                | (Inr ptrs, ps, w2) \<Rightarrow> (Inr (ptr # ptrs), ps, w2)))"

definition handler_setupMemory ::
  "manager \<Rightarrow> nat list \<Rightarrow> (nat list \<Rightarrow> error + 'm) \<Rightarrow> world \<Rightarrow> (nat \<times> nat) list
     \<Rightarrow> (error + 'm) \<times> (nat \<times> nat) list \<times> world" where
  "handler_setupMemory rm sizes marshal w allocatedPointers =
     (case allocate_all rm sizes w allocatedPointers of
        (Inl e, ps, w1) \<Rightarrow> (Inl e, ps, w1)
      | (Inr ptrs, ps, w1) \<Rightarrow> (marshal ptrs, ps, w1))"

text \<open>
  \<^verbatim>\<open>handleNormalizeVector(array)\<close>: one region of \<^verbatim>\<open>array.length * 4\<close> bytes, the
  method name \<^verbatim>\<open>'normalizeVector'\<close>, the whole array as fingerprint.
  \<^verbatim>\<open>handleMultiplyMat4(matA, matB)\<close>: the 16-element guard, then three regions of 64 bytes.
\<close>

definition handleNormalizeVector ::
  "nat \<Rightarrow> (nat list \<Rightarrow> error + 'm) \<Rightarrow> ('m \<Rightarrow> error + jsval) \<Rightarrow> string
     \<Rightarrow> manager \<times> world \<Rightarrow> (error + jsval) \<times> manager \<times> world" where
  "handleNormalizeVector array_length marshal executeWasm fp = (\<lambda>(rm, w).
     executeWasmWithMemoryManagement ''normalizeVector''
       (handler_setupMemory rm [array_length * 4] marshal) executeWasm fp (rm, w))"

definition handleMultiplyMat4 ::
  "nat \<Rightarrow> nat \<Rightarrow> (nat list \<Rightarrow> error + 'm) \<Rightarrow> ('m \<Rightarrow> error + jsval) \<Rightarrow> string
     \<Rightarrow> manager \<times> world \<Rightarrow> (error + jsval) \<times> manager \<times> world" where
  "handleMultiplyMat4 matA_length matB_length marshal executeWasm fp = (\<lambda>(rm, w).
     if matA_length \<noteq> 16 \<or> matB_length \<noteq> 16
     then (Inl (Error ''Input matrices must be 4x4 (16 elements each)''), rm, w)
     else executeWasmWithMemoryManagement ''multiplyMat4''
            (handler_setupMemory rm [64, 64, 64] marshal) executeWasm fp (rm, w))"

section \<open>The execution framework on the GPU\<close>

text \<open>
  \<^verbatim>\<open>
  shouldCacheResult(cacheKeyData) {
      const dataSize = JSON.stringify(cacheKeyData).length;
      return dataSize <= 10000;
  }
  \<close>
\<close>

definition shouldCacheResult :: "string \<Rightarrow> bool" where
  "shouldCacheResult fp = (length fp \<le> 10000)"

text \<open>
  \<^verbatim>\<open>
  async getOrCreatePipeline(operationName, createPipelineFunc, webgpuCore) {
      const pipelineKey = `${operationName}_pipeline`;
      (cache check with pipelineKey)
      const pipelineResult = await createPipelineFunc(webgpuCore);
      if (this.rm.cacheManager) { this.rm.cacheManager.set(pipelineKey, pipelineResult); }
      return pipelineResult;
  }
  \<close>
  \<open>createPipelineFunc\<close> is the outcome of building the pipeline; \<open>pipelines_built\<close>
  counts the calls of the builder.
\<close>

definition getOrCreatePipeline ::
  "string \<Rightarrow> (error + jsval) \<Rightarrow> manager \<times> world \<Rightarrow> (error + jsval) \<times> manager \<times> world" where
  "getOrCreatePipeline operationName createPipelineFunc = (\<lambda>(rm, w).
     case cache_lookup rm (operationName @ ''_pipeline'') of
       Inl e \<Rightarrow> (Inl e, rm, w)
     | Inr (Some cached) \<Rightarrow> (Inr cached, rm, w)
     | Inr None \<Rightarrow>
         (case createPipelineFunc of
            Inl e \<Rightarrow> (Inl e, rm, w\<lparr>pipelines_built := pipelines_built w + 1\<rparr>)
          | Inr pipelineResult \<Rightarrow>
              (case cache_store rm (operationName @ ''_pipeline'') pipelineResult of
                 Inl e \<Rightarrow> (Inl e, rm, w\<lparr>pipelines_built := pipelines_built w + 1\<rparr>)
               | Inr rm' \<Rightarrow>
                   (Inr pipelineResult, rm', w\<lparr>pipelines_built := pipelines_built w + 1\<rparr>))))"

text \<open>
  \<^verbatim>\<open>webgpuCore.createBuffer(size, usage)\<close> and \<^verbatim>\<open>buffer.destroy()\<close>: the core takes the
  next answer of the environment, and the world records the buffer when it is not null,
  and the call that destroys it.
\<close>

definition createBuffer :: "nat \<Rightarrow> nat \<Rightarrow> world \<Rightarrow> nat \<times> world" where
  "createBuffer sz usage w =
     (case alloc_results w of
        [] \<Rightarrow> (0, w)
      | buffer # rest \<Rightarrow>
          (buffer, w\<lparr>alloc_results := rest,
                     allocated := (if buffer = 0 then allocated w
                                   else allocated w @ [CreateBuffer buffer sz usage])\<rparr>))"

definition destroy :: "nat \<Rightarrow> world \<Rightarrow> world" where
  "destroy buffer w = w\<lparr>released := released w @ [BufferDestroy buffer]\<rparr>"

text \<open>
  \<^verbatim>\<open>
  createSimpleBufferPool() {
      return {
          bufferPools: new Map(),
          inUseBuffers: new Set(),
          stats: { hits: 0, misses: 0, totalCreated: 0 },
          allocateBuffer: (size, usage, label = '') => {
              const key = `${size}_${usage}`;
              const pool = this.bufferPools.get(key);
              ...
          },
          deallocateBuffer: (buffer, size, usage) => {
              if (!this.inUseBuffers.has(buffer)) return;
              ...
  \<close>
  As in \<^verbatim>\<open>createSimpleWasmPool\<close>, \<^verbatim>\<open>this\<close> is the manager, which has neither
  \<^verbatim>\<open>bufferPools\<close> nor \<^verbatim>\<open>inUseBuffers\<close>: both methods raise \<open>TypeError\<close> in
  their first use of \<^verbatim>\<open>this\<close>, \<^verbatim>\<open>allocateBuffer\<close> before it creates a buffer.
\<close>

definition createSimpleBufferPool_allocateBuffer ::
  "manager \<Rightarrow> nat \<Rightarrow> nat \<Rightarrow> world \<Rightarrow> (error + nat) \<times> world" where
  "createSimpleBufferPool_allocateBuffer this sz usage w = (Inl TypeError, w)"

definition createSimpleBufferPool_deallocateBuffer ::
  "manager \<Rightarrow> nat \<Rightarrow> nat \<Rightarrow> nat \<Rightarrow> world \<Rightarrow> error + world" where
  "createSimpleBufferPool_deallocateBuffer this buffer sz usage w = Inl TypeError"

text \<open>
  \<^verbatim>\<open>
  cleanupWebGPUBuffers(allocatedBuffers) {
      allocatedBuffers.forEach(({ buffer, size, usage }) => {
          if (buffer) {
              if (this.rm.webgpuBufferPool) {
                  this.rm.webgpuBufferPool.deallocateBuffer(buffer, size, usage);
              } else { buffer.destroy(); }
          }
      });
  }
  \<close>
  \<open>release_buffer\<close> is the body of the callback for an entry whose buffer is not null; an
  exception raised in it ends \<^verbatim>\<open>forEach\<close>.
\<close>

definition release_buffer :: "manager \<Rightarrow> nat \<times> nat \<times> nat \<Rightarrow> world \<Rightarrow> error + world" where
  "release_buffer rm = (\<lambda>(buffer, sz, usage) w.
     case webgpuBufferPool rm of
       Some SimpleBufferPool \<Rightarrow> createSimpleBufferPool_deallocateBuffer rm buffer sz usage w
     | Some FallbackBufferPool \<Rightarrow> Inr w
     | None \<Rightarrow> Inr (destroy buffer w))"

fun cleanupWebGPUBuffers ::
  "manager \<Rightarrow> (nat \<times> nat \<times> nat) list \<Rightarrow> world \<Rightarrow> error option \<times> world" where
  "cleanupWebGPUBuffers rm [] w = (None, w)"
| "cleanupWebGPUBuffers rm (entry # rest) w =
     (if fst entry = 0 then cleanupWebGPUBuffers rm rest w
      else (case release_buffer rm entry w of
              Inl e \<Rightarrow> (Some e, w)
            | Inr w1 \<Rightarrow> cleanupWebGPUBuffers rm rest w1))"

text \<open>
  \<^verbatim>\<open>
  async executeWebGPUCompute(operationName, setupBuffers, createPipeline, executeCompute,
                             cacheKeyData) {
      const webgpuCore = this.rm.getWebGPUCore();
      if (!webgpuCore || !webgpuCore.isInitialized) { throw new Error('WebGPU core not available'); }
      const cacheKey = `gpu_${operationName}_${JSON.stringify(cacheKeyData)}`;
      const shouldCache = this.shouldCacheResult(cacheKeyData);
      if (shouldCache && this.rm.cacheManager) { (cache check) }
      const allocatedBuffers = [];
      try {
          const buffers = await setupBuffers(webgpuCore, allocatedBuffers);
          const { pipeline, bindGroupLayout } = await this.getOrCreatePipeline(...);
          const result = await executeCompute(webgpuCore, buffers, pipeline, bindGroupLayout);
          if (shouldCache && this.rm.cacheManager) { this.rm.cacheManager.set(cacheKey, result); }
          return result;
      } finally {
          this.cleanupWebGPUBuffers(allocatedBuffers);
      }
  }
  \<close>
  Destructuring \<^verbatim>\<open>null\<close> or \<^verbatim>\<open>undefined\<close> raises \<open>TypeError\<close>. An exception
  raised in the \<^verbatim>\<open>finally\<close> block replaces the outcome of the \<^verbatim>\<open>try\<close> block.
\<close>

definition executeWebGPU_try ::
  "string \<Rightarrow> string \<Rightarrow> bool \<Rightarrow> (error + 'b) \<Rightarrow> (error + jsval) \<Rightarrow> ('b \<Rightarrow> jsval \<Rightarrow> error + jsval)
     \<Rightarrow> manager \<times> world \<Rightarrow> (error + jsval) \<times> manager \<times> world" where
  "executeWebGPU_try operationName cacheKey shouldCache setupResult createPipeline executeCompute =
     (\<lambda>(rm, w).
     case setupResult of
       Inl e \<Rightarrow> (Inl e, rm, w)
     | Inr buffers \<Rightarrow>
         (case getOrCreatePipeline operationName createPipeline (rm, w) of
            (Inl e, rm1, w1) \<Rightarrow> (Inl e, rm1, w1)
          | (Inr pipelineResult, rm1, w1) \<Rightarrow>
              if pipelineResult = JNull \<or> pipelineResult = JUndefined then (Inl TypeError, rm1, w1)
              else (case executeCompute buffers pipelineResult of
                      Inl e \<Rightarrow> (Inl e, rm1, w1\<lparr>invoked := invoked w1 + 1\<rparr>)
                    | Inr result \<Rightarrow>
                        (case (if shouldCache then cache_store rm1 cacheKey result else Inr rm1) of
                           Inl e \<Rightarrow> (Inl e, rm1, w1\<lparr>invoked := invoked w1 + 1\<rparr>)
                         | Inr rm2 \<Rightarrow> (Inr result, rm2, w1\<lparr>invoked := invoked w1 + 1\<rparr>)))))"

definition executeWebGPUCompute ::
  "string \<Rightarrow> (world \<Rightarrow> (nat \<times> nat \<times> nat) list
                 \<Rightarrow> (error + 'b) \<times> (nat \<times> nat \<times> nat) list \<times> world)
     \<Rightarrow> (error + jsval) \<Rightarrow> ('b \<Rightarrow> jsval \<Rightarrow> error + jsval) \<Rightarrow> string \<Rightarrow> manager \<times> world
     \<Rightarrow> (error + jsval) \<times> manager \<times> world" where
  "executeWebGPUCompute operationName setupBuffers createPipeline executeCompute fp = (\<lambda>(rm, w).
     if webgpuCore rm \<noteq> Some True then (Inl (Error ''WebGPU core not available''), rm, w)
     else
       (case (if shouldCacheResult fp
              then cache_lookup rm (''gpu_'' @ operationName @ ''_'' @ fp) else Inr None) of
          Inl e \<Rightarrow> (Inl e, rm, w)
        | Inr (Some cached) \<Rightarrow> (Inr cached, rm, w)
        | Inr None \<Rightarrow>
            (case setupBuffers w [] of
               (setupResult, allocatedBuffers, w1) \<Rightarrow>
                 (case executeWebGPU_try operationName (''gpu_'' @ operationName @ ''_'' @ fp)
                         (shouldCacheResult fp) setupResult createPipeline executeCompute (rm, w1) of
                    (outcome, rm2, w2) \<Rightarrow>
                      (case cleanupWebGPUBuffers rm2 allocatedBuffers w2 of
                         (None, w3) \<Rightarrow> (outcome, rm2, w3)
                       | (Some e, w3) \<Rightarrow> (Inl e, rm2, w3))))))"

text \<open>
  \<^verbatim>\<open>
  allocateWebGPUBuffer(webgpuCore, size, usage, label, allocatedBuffers) {
      let buffer;
      if (this.rm.webgpuBufferPool) { buffer = this.rm.webgpuBufferPool.allocateBuffer(size, usage, label); }
      else { buffer = webgpuCore.createBuffer(size, usage); }
      allocatedBuffers.push({ buffer, size, usage });
      return buffer;
  }
  \<close>
  The entry is pushed whether or not a buffer came back, and not at all when the pool
  raises. The \<^verbatim>\<open>setupBuffers\<close> closures of \<^verbatim>\<open>createWebGPUVectorAdd\<close> and
  \<^verbatim>\<open>createWebGPUMatrixMultiply\<close> call it three and four times and then write the inputs
  (\<open>write\<close> is the outcome of the writes).
\<close>

definition allocateWebGPUBuffer ::
  "manager \<Rightarrow> nat \<Rightarrow> nat \<Rightarrow> world \<Rightarrow> (nat \<times> nat \<times> nat) list
     \<Rightarrow> (error + nat) \<times> (nat \<times> nat \<times> nat) list \<times> world" where
  "allocateWebGPUBuffer rm sz usage w allocatedBuffers =
     (case (case webgpuBufferPool rm of
              Some SimpleBufferPool \<Rightarrow> createSimpleBufferPool_allocateBuffer rm sz usage w
            | Some FallbackBufferPool \<Rightarrow> (Inr 0, w)
            | None \<Rightarrow> (case createBuffer sz usage w of (buffer, w1) \<Rightarrow> (Inr buffer, w1))) of
        (Inl e, w1) \<Rightarrow> (Inl e, allocatedBuffers, w1)
      | (Inr buffer, w1) \<Rightarrow> (Inr buffer, allocatedBuffers @ [(buffer, sz, usage)], w1))"

fun allocate_buffers :: "manager \<Rightarrow> (nat \<times> nat) list \<Rightarrow> world \<Rightarrow> (nat \<times> nat \<times> nat) list
                           \<Rightarrow> (error + nat list) \<times> (nat \<times> nat \<times> nat) list \<times> world" where
  "allocate_buffers rm [] w allocatedBuffers = (Inr [], allocatedBuffers, w)"
| "allocate_buffers rm ((sz, usage) # specs) w allocatedBuffers =
     (case allocateWebGPUBuffer rm sz usage w allocatedBuffers of
        (Inl e, bs, w1) \<Rightarrow> (Inl e, bs, w1)
      | (Inr buffer, bs, w1) \<Rightarrow>
          (case allocate_buffers rm specs w1 bs of
             (Inl e, bs', w2) \<Rightarrow> (Inl e, bs', w2)
           | (Inr buffers, bs', w2) \<Rightarrow> (Inr (buffer # buffers), bs', w2)))"

definition handler_setupBuffers ::
  "manager \<Rightarrow> (nat \<times> nat) list \<Rightarrow> (nat list \<Rightarrow> error + 'b) \<Rightarrow> world \<Rightarrow> (nat \<times> nat \<times> nat) list
     \<Rightarrow> (error + 'b) \<times> (nat \<times> nat \<times> nat) list \<times> world" where
  "handler_setupBuffers rm specs write w allocatedBuffers =
     (case allocate_buffers rm specs w allocatedBuffers of
        (Inl e, bs, w1) \<Rightarrow> (Inl e, bs, w1)
      | (Inr buffers, bs, w1) \<Rightarrow> (write buffers, bs, w1))"

section \<open>Super-resolution and the public wrapper\<close>

text \<open>\<^verbatim>\<open>HYPERGPU_CONFIG.minSuperResolutionSize: 50\<close>\<close>

record config =
  minSuperResolutionSize :: real

definition HYPERGPU_CONFIG :: config where
  "HYPERGPU_CONFIG = \<lparr>minSuperResolutionSize = 50\<rparr>"

text \<open>
  \<^verbatim>\<open>
  async handleSuperResolution(imageData, inWidth, inHeight, outWidth, outHeight) {
      if (!(imageData instanceof Uint8ClampedArray)) { throw new Error('Input must be Uint8ClampedArray'); }
      if (inWidth < HYPERGPU_CONFIG.minSuperResolutionSize || inHeight < HYPERGPU_CONFIG.minSuperResolutionSize) {
          return { outputData: imageData, width: inWidth, height: inHeight, status: 'skipped' };
      }
      return await this.executeWasmWithMemoryManagement('superResolution', ...);
  }
  \<close>
  \<open>superResolutionBicubic_kernel\<close> is the outcome of the kernel call, the bytes it left.
\<close>

definition superResolution_result :: "jsval \<Rightarrow> real \<Rightarrow> real \<Rightarrow> string \<Rightarrow> jsval" where
  "superResolution_result outputData width height status =
     JObj [(''outputData'', outputData), (''width'', JNum width), (''height'', JNum height),
           (''status'', JStr status)]"

definition handleSuperResolution ::
  "config \<Rightarrow> jsval \<Rightarrow> real \<Rightarrow> real \<Rightarrow> real \<Rightarrow> real \<Rightarrow> (nat list \<Rightarrow> error + 'm)
     \<Rightarrow> ('m \<Rightarrow> error + nat list) \<Rightarrow> string
     \<Rightarrow> manager \<times> world \<Rightarrow> (error + jsval) \<times> manager \<times> world" where
  "handleSuperResolution cfg imageData inWidth inHeight outWidth outHeight marshal
       superResolutionBicubic_kernel fp = (\<lambda>(rm, w).
     case imageData of
       JU8C bytes \<Rightarrow>
         if inWidth < minSuperResolutionSize cfg \<or> inHeight < minSuperResolutionSize cfg
         then (Inr (superResolution_result imageData inWidth inHeight ''skipped''), rm, w)
         else executeWasmWithMemoryManagement ''superResolution''
                (handler_setupMemory rm [length bytes] marshal)
                (\<lambda>memoryInfo. case superResolutionBicubic_kernel memoryInfo of
                     Inl e \<Rightarrow> Inl e
                   | Inr out \<Rightarrow> Inr (superResolution_result (JU8C out) outWidth outHeight ''done''))
                fp (rm, w)
     | _ \<Rightarrow> (Inl (Error ''Input must be Uint8ClampedArray''), rm, w))"

text \<open>
  \<^verbatim>\<open>
  createWasmAPI(methodName, taskType) {
      return async (...args) => {
          const wasm = this.rm.getWasmExports();
          if (!wasm || !wasm[methodName]) { throw new Error(`WASM ${methodName} not available`); }
          const methodConfig = this.wasmMethodHandlers[methodName];
          if (!methodConfig) { throw new Error(`Unimplemented WASM method: ${methodName}`); }
          return await methodConfig.handler(...extractedArgs);
      };
  }
  \<close>
  \<open>handler\<close> is the entry of \<^verbatim>\<open>wasmMethodHandlers\<close> for the method, applied to the
  arguments of the call.
\<close>

definition createWasmAPI ::
  "string \<Rightarrow> (manager \<times> world \<Rightarrow> (error + jsval) \<times> manager \<times> world) option
     \<Rightarrow> manager \<times> world \<Rightarrow> (error + jsval) \<times> manager \<times> world" where
  "createWasmAPI methodName handler = (\<lambda>(rm, w).
     case wasmExports rm of
       None \<Rightarrow> (Inl (Error (''WASM '' @ methodName @ '' not available'')), rm, w)
     | Some exports \<Rightarrow>
         if methodName \<notin> set exports
         then (Inl (Error (''WASM '' @ methodName @ '' not available'')), rm, w)
         else (case handler of
                 None \<Rightarrow> (Inl (Error (''Unimplemented WASM method: '' @ methodName)), rm, w)
               | Some h \<Rightarrow> h (rm, w)))"

text \<open>The public operation \<^verbatim>\<open>superResolutionBicubic\<close> of \<^verbatim>\<open>getApi()\<close>.\<close>

definition superResolutionBicubic ::
  "config \<Rightarrow> jsval \<Rightarrow> real \<Rightarrow> real \<Rightarrow> real \<Rightarrow> real \<Rightarrow> (nat list \<Rightarrow> error + 'm)
     \<Rightarrow> ('m \<Rightarrow> error + nat list) \<Rightarrow> string
     \<Rightarrow> manager \<times> world \<Rightarrow> (error + jsval) \<times> manager \<times> world" where
  "superResolutionBicubic cfg imageData inWidth inHeight outWidth outHeight marshal
       superResolutionBicubic_kernel fp =
     createWasmAPI ''superResolutionBicubic''
       (Some (handleSuperResolution cfg imageData inWidth inHeight outWidth outHeight marshal
                superResolutionBicubic_kernel fp))"

section \<open>JavaScript numbers\<close>

text \<open>
  A JavaScript number is an IEEE 754 binary64 value. A finite one is the real number it
  denotes (the two zeros are one value: the sign of a zero shows only when something is
  divided by it), \<open>Infinity True\<close> is \<^verbatim>\<open>Infinity\<close> and \<open>Infinity False\<close> is
  \<^verbatim>\<open>-Infinity\<close>.
\<close>

datatype double = Finite real | Infinity bool | NaN

text \<open>
  Rounding to nearest, ties to even. The doubles around a real \<open>x\<close> are the multiples of
  \<open>ulp x\<close>: 53 significant bits in the binade of \<open>x\<close>, and the spacing of the
  subnormal numbers below \<open>2 powr (- 1022)\<close>. \<open>fl x\<close> is the double nearest to
  \<open>x\<close>; a result of magnitude \<open>2 ^ 1024\<close> or more is an infinity.
\<close>

definition round_ties_even :: "real \<Rightarrow> int" where
  "round_ties_even y =
     (let f = \<lfloor>y\<rfloor>
      in if y - of_int f < 1 / 2 then f
         else if 1 / 2 < y - of_int f then f + 1
         else if even f then f else f + 1)"

definition binade :: "real \<Rightarrow> int" where
  "binade x = max \<lfloor>log 2 \<bar>x\<bar>\<rfloor> (- 1022)"

definition ulp :: "real \<Rightarrow> real" where
  "ulp x = 2 powr (of_int (binade x) - 52)"

definition fl :: "real \<Rightarrow> double" where
  "fl x =
     (if x = 0 then Finite 0
      else (let r = of_int (round_ties_even (x / ulp x)) * ulp x
            in if 2 ^ 1024 \<le> \<bar>r\<bar> then Infinity (0 < x) else Finite r))"






section \<open>The software fallback of vector normalisation\<close>




section \<open>States used in the examples\<close>

text \<open>
  A receiver whose map is full: 50 entries under the keys \<open>k\<close>, \<open>kk\<close>, \<open>kkk\<close>, ... in
  this order of insertion.
\<close>

definition full_cache :: receiver where
  "full_cache =
     \<lparr>cache = Some (map (\<lambda>i. (replicate (Suc i) CHR ''k'', JNum 1)) [0..<50]),
      maxSize = Some 50\<rparr>"

text \<open>
  An initialised manager that owns a map and the limit, has no pool, and whose module
  exports the four kernels and the three memory functions that the handlers call; and a
  world with nothing logged.
\<close>

definition caching_manager :: manager where
  "caching_manager =
     HyperGpuResourceManager\<lparr>cache := Some [], maxSize := Some 50, isInitialized := True,
       phase := Ph_completed, attemptCount := 1,
       wasmExports := Some [''normalizeVectorGeneric'', ''multiplyMat4Generic'',
                            ''superResolutionBicubic'', ''preprocessParticles'',
                            ''wasm_alloc'', ''free_memory'', ''get_memory''],
       webgpuCore := Some True, cacheManager := True\<rparr>"

text \<open>
  An initialised manager whose exports are those of \<^verbatim>\<open>createFallbackWasmCore\<close>, the
  software fallback injected when the WebAssembly module fails to load.
\<close>

definition fallback_manager :: manager where
  "fallback_manager =
     HyperGpuResourceManager\<lparr>isInitialized := True, phase := Ph_completed, attemptCount := 1,
       wasmExports := Some [''init'', ''normalizeVectorGeneric'', ''multiplyMat4Generic'',
                            ''allocMemory'', ''freeMemory'', ''getWasmInstance'']\<rparr>"

text \<open>
  An initialised manager with the pool of \<^verbatim>\<open>createSimpleWasmPool\<close> in
  \<^verbatim>\<open>wasmMemoryPool\<close>, no cache manager, and a module that exports \<^verbatim>\<open>wasm_alloc\<close>
  and \<^verbatim>\<open>free_memory\<close>.
\<close>

definition simple_pool_manager :: manager where
  "simple_pool_manager =
     HyperGpuResourceManager\<lparr>isInitialized := True, phase := Ph_completed, attemptCount := 1,
       wasmExports := Some [''normalizeVectorGeneric'', ''multiplyMat4Generic'',
                            ''wasm_alloc'', ''free_memory'', ''get_memory''],
       wasmMemoryPool := Some SimpleWasmPool\<rparr>"

text \<open>
  The manager as \<^verbatim>\<open>initMemoryOptimization\<close> leaves it with the simplified memory system
  and a GPU core: the pool of \<^verbatim>\<open>createSimpleWasmPool\<close>, the pool of
  \<^verbatim>\<open>createSimpleBufferPool\<close> and the cache manager of \<^verbatim>\<open>createSimpleCache\<close>, on a
  manager that has no \<^verbatim>\<open>cache\<close> of its own.
\<close>

definition simplified_manager :: manager where
  "simplified_manager =
     simple_pool_manager\<lparr>webgpuCore := Some True, webgpuBufferPool := Some SimpleBufferPool,
       cacheManager := True\<rparr>"

text \<open>
  \<^verbatim>\<open>JSON.stringify\<close> of an array of 5000 zeros, the fingerprint of
  \<^verbatim>\<open>handleNormalizeVector\<close> for such an array: 10001 characters.
\<close>

definition long_fingerprint :: string where
  "long_fingerprint = ''['' @ concat (replicate 4999 ''0,'') @ ''0]''"

text \<open>
  A manager whose map is full and whose oldest entry is the compiled pipeline of
  \<^verbatim>\<open>vector_add\<close>, followed by 49 data results.
\<close>

definition vector_add_pipeline :: jsval where
  "vector_add_pipeline = JObj [(''pipeline'', JStr ''p''), (''bindGroupLayout'', JStr ''l'')]"

definition pipeline_first_manager :: manager where
  "pipeline_first_manager =
     caching_manager\<lparr>cache := Some ((''vector_add_pipeline'', vector_add_pipeline)
        # map (\<lambda>i. (replicate (Suc i) CHR ''k'', JNum 1)) [0..<49])\<rparr>"

definition quiet_world :: "nat list \<Rightarrow> world" where
  "quiet_world answers =
     \<lparr>alloc_results = answers, allocated = [], released = [], invoked = 0,
      pipelines_built = 0, phase_log = [], timeouts = []\<rparr>"

section \<open>Facts about the cache\<close>

lemma cache_evict_tl:
  "distinct (map fst m) \<Longrightarrow> cache_evict m = tl m"
  by (cases m) (force simp: cache_evict_def AList.delete_eq filter_id_conv)+

lemma cache_evict_distinct:
  "distinct (map fst m) \<Longrightarrow> distinct (map fst (cache_evict m))"
  by (simp add: cache_evict_tl distinct_tl map_tl)

lemma length_update_le: "length (AList.update k v m) \<le> Suc (length m)"
  by (induction m) auto

lemma map_of_update_same: "map_of (AList.update k v m) k = Some v"
  by (simp add: update_conv')

lemma map_of_update_other: "k' \<noteq> k \<Longrightarrow> map_of (AList.update k v m) k' = map_of m k'"
  by (simp add: update_conv')

lemma update_absent: "k \<notin> fst ` set m \<Longrightarrow> AList.update k v m = m @ [(k, v)]"
  by (induction m) auto

text \<open>
  C7, as amended. On a receiver that holds the map and the limit 50, \<open>set\<close> keeps the map
  within 50 entries with distinct keys; at the limit it removes the oldest entry (the head
  of the map) before it stores, and a new key goes to the end; \<open>get\<close> of the key just
  stored returns the value when it is truthy and \<open>null\<close> when it is falsy.
\<close>

theorem cache_set_bounded_fifo:
  assumes "cache this = Some m" and "maxSize this = Some 50"
    and "distinct (map fst m)" and "length m \<le> 50"
  shows "\<exists>this' m'. cache_set this key data = Inr this' \<and> cache this' = Some m'
           \<and> maxSize this' = Some 50
           \<and> length m' \<le> 50 \<and> distinct (map fst m')
           \<and> m' = AList.update key data (if length m = 50 then tl m else m)
           \<and> (if length m = 50 \<and> key \<notin> fst ` set (tl m)
               then map fst m' = tl (map fst m) @ [key] else True)
           \<and> cache_get this' key = Inr (if truthy data then data else JNull)"
proof -
  let ?base = "if length m = 50 then tl m else m"
  let ?m' = "AList.update key data ?base"
  let ?this' = "this\<lparr>cache := Some ?m'\<rparr>"
  have full: "cache_full this m = (length m = 50)"
    using assms(2,4) by (auto simp: cache_full_def)
  have base: "(if cache_full this m then cache_evict m else m) = ?base"
    using assms(3) by (simp add: full cache_evict_tl)
  have set_eq: "cache_set this key data = Inr ?this'"
    using assms(1) base by (simp add: cache_set_def)
  have dbase: "distinct (map fst ?base)"
    using assms(3) by (simp add: distinct_tl map_tl)
  have lbase: "length ?base \<le> 49 \<or> (length m < 50 \<and> ?base = m)"
    using assms(4) by auto
  have len: "length ?m' \<le> 50"
  proof (cases "length m = 50")
    case True
    then have "length ?base = 49" by simp
    with length_update_le [of key data ?base] show ?thesis by simp
  next
    case False
    with assms(4) have "length ?base < 50" by simp
    with length_update_le [of key data ?base] show ?thesis by simp
  qed
  have dist: "distinct (map fst ?m')"
    using dbase by (rule distinct_update)
  have fifo: "length m = 50 \<and> key \<notin> fst ` set (tl m) \<Longrightarrow> map fst ?m' = tl (map fst m) @ [key]"
    by (simp add: update_absent map_tl)
  have get_eq: "cache_get ?this' key = Inr (if truthy data then data else JNull)"
    by (simp add: cache_get_def map_of_update_same)
  show ?thesis
    using set_eq len dist fifo get_eq assms(2) by (intro exI [of _ ?this'] exI [of _ ?m']) simp
qed

lemma full_cache_distinct:
  "distinct (map fst (map (\<lambda>i. (replicate (Suc i) CHR ''k'', JNum 1)) [0..<50]))"
  by (simp add: distinct_map inj_on_def comp_def)

theorem cache_set_bounded_fifo_witness:
  "\<exists>this' m'. cache_set full_cache ''new'' (JNum 2) = Inr this' \<and> cache this' = Some m'
     \<and> length m' \<le> 50 \<and> distinct (map fst m')
     \<and> map fst m' = map (\<lambda>i. replicate (Suc i) CHR ''k'') [1..<50] @ [''new'']
     \<and> cache_get this' ''new'' = Inr (JNum 2)"
proof -
  let ?m = "map (\<lambda>i. (replicate (Suc i) CHR ''k'', JNum 1)) [0..<50]"
  have c: "cache full_cache = Some ?m" and s: "maxSize full_cache = Some 50"
    by (simp_all add: full_cache_def)
  have l: "length ?m \<le> 50" by simp
  have n: "''new'' \<notin> fst ` set (tl ?m)"
    by (auto dest!: list.set_sel(2) [rotated])
  have t: "tl (map fst ?m) = map (\<lambda>i. replicate (Suc i) CHR ''k'') [1..<50]"
    by (subst upt_conv_Cons) (simp_all add: comp_def)
  from cache_set_bounded_fifo [OF c s full_cache_distinct l, of "''new''" "JNum 2"]
  obtain this' m' where "cache_set full_cache ''new'' (JNum 2) = Inr this'"
    "cache this' = Some m'" "length m' \<le> 50" "distinct (map fst m')"
    "(if length ?m = 50 \<and> ''new'' \<notin> fst ` set (tl ?m)
               then map fst m' = tl (map fst ?m) @ [''new''] else True)"
    "cache_get this' ''new'' = Inr (if truthy (JNum 2) then JNum 2 else JNull)"
    by blast
  then show ?thesis using n t by (intro exI [of _ this'] exI [of _ m']) simp
qed

text \<open>
  C7 as stated fails for a falsy value: after \<open>set('k', 0)\<close> the key is present with the
  value \<open>0\<close>, and \<open>get('k')\<close> returns \<open>null\<close>.
\<close>

theorem cache_get_falsy_counterexample:
  "cache_set createSimpleCache ''k'' (JNum 0)
     = Inr \<lparr>cache = Some [(''k'', JNum 0)], maxSize = Some 50\<rparr>
   \<and> cache_get \<lparr>cache = Some [(''k'', JNum 0)], maxSize = Some 50\<rparr> ''k'' = Inr JNull"
  by (simp add: cache_set_def cache_get_def createSimpleCache_def cache_full_def)

text \<open>
  On the manager as its constructor leaves it, which is the object the arrow functions
  name by \<^verbatim>\<open>this\<close>, there is no map to read: both operations raise.
\<close>

lemma cache_on_manager_raises:
  "cache_get HyperGpuResourceManager key = Inl TypeError"
  "cache_set HyperGpuResourceManager key data = Inl TypeError"
  by (simp_all add: cache_get_def cache_set_def HyperGpuResourceManager_def)

section \<open>Facts about the fallback normalisation\<close>


lemma binade_eq:
  assumes "2 powr (of_int e) \<le> \<bar>x\<bar>" and "\<bar>x\<bar> < 2 powr (of_int e + 1)" and "- 1022 \<le> e"
  shows "binade x = e"
proof -
  have pos: "0 < \<bar>x\<bar>" using assms(1) by (smt (verit) powr_gt_zero)
  have "of_int e \<le> log 2 \<bar>x\<bar>" using assms(1) pos by (simp add: le_log_iff)
  moreover have "log 2 \<bar>x\<bar> < of_int e + 1" using assms(2) pos by (simp add: log_less_iff)
  ultimately have "\<lfloor>log 2 \<bar>x\<bar>\<rfloor> = e" by linarith
  then show ?thesis using assms(3) by (simp add: binade_def)
qed



lemma fl_rounds:
  assumes "x \<noteq> 0" and "ulp x = u" and "round_ties_even (x / u) = k"
    and "\<bar>of_int k * u\<bar> < 2 ^ 1024"
  shows "fl x = Finite (of_int k * u)"
  using assms(1,4) unfolding fl_def Let_def assms(2) assms(3) by simp






text \<open>
  The literals \<^verbatim>\<open>0.6\<close> and \<^verbatim>\<open>0.8\<close> denote the doubles \<^verbatim>\<open>0x3FE3333333333333\<close> and
  \<^verbatim>\<open>0x3FE999999999999A\<close>.
\<close>

lemma fl_0_6: "fl 0.6 = Finite (5404319552844595 / 2 ^ 53)"
proof -
  have "binade (3 / 5) = - 1" by (rule binade_eq) (simp_all add: powr_minus)
  then have u: "ulp (3 / 5) = 1 / 2 ^ 53" by (simp add: ulp_def powr_minus field_simps)
  have q: "(3 / 5) / (1 / 2 ^ 53) = (27021597764222976 / 5 :: real)" by simp
  have f: "\<lfloor>27021597764222976 / 5 :: real\<rfloor> = 5404319552844595" by linarith
  have r: "round_ties_even ((3 / 5) / (1 / 2 ^ 53)) = 5404319552844595"
    unfolding q round_ties_even_def Let_def f by simp
  have "fl (3 / 5) = Finite (of_int 5404319552844595 * (1 / 2 ^ 53))"
    by (rule fl_rounds [OF _ u r]) simp_all
  then show ?thesis by simp
qed

lemma fl_0_8: "fl 0.8 = Finite (7205759403792794 / 2 ^ 53)"
proof -
  have "binade (4 / 5) = - 1" by (rule binade_eq) (simp_all add: powr_minus)
  then have u: "ulp (4 / 5) = 1 / 2 ^ 53" by (simp add: ulp_def powr_minus field_simps)
  have q: "(4 / 5) / (1 / 2 ^ 53) = (36028797018963968 / 5 :: real)" by simp
  have f: "\<lfloor>36028797018963968 / 5 :: real\<rfloor> = 7205759403792793" by linarith
  have r: "round_ties_even ((4 / 5) / (1 / 2 ^ 53)) = 7205759403792794"
    unfolding q round_ties_even_def Let_def f by simp
  have "fl (4 / 5) = Finite (of_int 7205759403792794 * (1 / 2 ^ 53))"
    by (rule fl_rounds [OF _ u r]) simp_all
  then show ?thesis by simp
qed













section \<open>Facts about super-resolution\<close>

text \<open>
  C10, as amended. When the image data is a \<^verbatim>\<open>Uint8ClampedArray\<close> and the input width
  or height is below \<open>minSuperResolutionSize\<close>, \<open>handleSuperResolution\<close> returns the input
  data with its dimensions and the status \<open>skipped\<close> and leaves the manager and the world
  as they were: nothing is allocated, the kernel is not invoked. The public operation does
  the same when the export \<open>superResolutionBicubic\<close> is available.
\<close>

theorem superResolution_skips_small_input:
  assumes "inWidth < minSuperResolutionSize cfg \<or> inHeight < minSuperResolutionSize cfg"
  shows "handleSuperResolution cfg (JU8C bytes) inWidth inHeight outWidth outHeight marshal
           superResolutionBicubic_kernel fp (rm, w)
         = (Inr (superResolution_result (JU8C bytes) inWidth inHeight ''skipped''), rm, w)
       \<and> (wasmExports rm = Some exports \<and> ''superResolutionBicubic'' \<in> set exports
           \<longrightarrow> superResolutionBicubic cfg (JU8C bytes) inWidth inHeight outWidth outHeight marshal
                 superResolutionBicubic_kernel fp (rm, w)
               = (Inr (superResolution_result (JU8C bytes) inWidth inHeight ''skipped''), rm, w))"
  using assms
  by (auto simp: handleSuperResolution_def superResolutionBicubic_def createWasmAPI_def)

theorem superResolution_skips_small_input_witness:
  "(10 :: real) < minSuperResolutionSize HYPERGPU_CONFIG
   \<and> wasmExports caching_manager
       = Some [''normalizeVectorGeneric'', ''multiplyMat4Generic'',
               ''superResolutionBicubic'', ''preprocessParticles'',
               ''wasm_alloc'', ''free_memory'', ''get_memory'']
   \<and> superResolutionBicubic HYPERGPU_CONFIG (JU8C [1, 2, 3, 4]) 10 80 20 160
        (\<lambda>ptrs. Inr ptrs) (\<lambda>memoryInfo. Inr [9 :: nat]) ''[4,10,80,20,160]''
        (caching_manager, quiet_world [64])
      = (Inr (superResolution_result (JU8C [1, 2, 3, 4]) 10 80 ''skipped''),
         caching_manager, quiet_world [64])"
proof -
  have h: "(10 :: real) < minSuperResolutionSize HYPERGPU_CONFIG
             \<or> (80 :: real) < minSuperResolutionSize HYPERGPU_CONFIG"
    by (simp add: HYPERGPU_CONFIG_def)
  show ?thesis
    using superResolution_skips_small_input [OF h, of "[1, 2, 3, 4]" 20 160 "\<lambda>ptrs. Inr ptrs"
        "\<lambda>memoryInfo. Inr [9 :: nat]" "''[4,10,80,20,160]''" caching_manager "quiet_world [64]"
        "[''normalizeVectorGeneric'', ''multiplyMat4Generic'',
               ''superResolutionBicubic'', ''preprocessParticles'',
               ''wasm_alloc'', ''free_memory'', ''get_memory'']"]
    by (simp add: HYPERGPU_CONFIG_def caching_manager_def HyperGpuResourceManager_def)
qed

text \<open>
  C10 as stated fails: with the fallback exports the public operation throws for a small
  \<^verbatim>\<open>Uint8ClampedArray\<close>, and the handler throws for a small image passed as a plain array.
\<close>

theorem superResolution_small_input_counterexample:
  "superResolutionBicubic HYPERGPU_CONFIG (JU8C [1, 2, 3, 4]) 10 80 20 160
        (\<lambda>ptrs. Inr ptrs) (\<lambda>memoryInfo. Inr [9 :: nat]) ''[4,10,80,20,160]''
        (fallback_manager, quiet_world [])
      = (Inl (Error ''WASM superResolutionBicubic not available''),
         fallback_manager, quiet_world [])
   \<and> handleSuperResolution HYPERGPU_CONFIG (JArr [JNum 1, JNum 2, JNum 3, JNum 4]) 10 80 20 160
        (\<lambda>ptrs. Inr ptrs) (\<lambda>memoryInfo. Inr [9 :: nat]) ''[4,10,80,20,160]''
        (caching_manager, quiet_world [])
      = (Inl (Error ''Input must be Uint8ClampedArray''), caching_manager, quiet_world [])"
  by (simp add: superResolutionBicubic_def createWasmAPI_def handleSuperResolution_def
      fallback_manager_def HyperGpuResourceManager_def)

section \<open>Facts about initialisation\<close>

text \<open>
  C2, as amended. \<open>init\<close> on a manager whose initialisation has completed returns at once
  and changes nothing, so no phase runs again. \<open>init\<close> on a manager that is not yet
  initialised, which includes one whose earlier run is still awaiting a phase, starts a run
  of its own: it counts another attempt and enters the phase sequence, and the manager is
  still not initialised afterwards.
\<close>

theorem init_noop_when_completed_else_new_run:
  "(isInitialized rm \<longrightarrow>
      init outcome (rm, w) = (Inr (), rm, w)
      \<and> init_enter (rm, w) = (AlreadyInitialized, rm, w))
   \<and> (\<not> isInitialized rm \<longrightarrow>
      init_enter (rm, w)
        = (RunStarted, rm\<lparr>phase := Ph_wasm, attemptCount := attemptCount rm + 1\<rparr>,
           w\<lparr>phase_log := phase_log w @ [Ph_environment, Ph_wasm]\<rparr>)
      \<and> \<not> isInitialized (fst (snd (init_enter (rm, w)))))"
  by (simp add: init_enter_def)

theorem init_noop_when_completed_else_new_run_witness:
  "isInitialized caching_manager
   \<and> init (\<lambda>k. None) (caching_manager, quiet_world []) = (Inr (), caching_manager, quiet_world [])
   \<and> \<not> isInitialized HyperGpuResourceManager
   \<and> fst (init_enter (HyperGpuResourceManager, quiet_world [])) = RunStarted
   \<and> attemptCount (fst (snd (init_enter (HyperGpuResourceManager, quiet_world [])))) = 1"
  using init_noop_when_completed_else_new_run [of caching_manager "\<lambda>k. None" "quiet_world []"]
    init_noop_when_completed_else_new_run [of HyperGpuResourceManager "\<lambda>k. None" "quiet_world []"]
  by (simp add: caching_manager_def HyperGpuResourceManager_def)

text \<open>
  C2 as stated fails in its second half: a second \<open>init\<close> entered while the first run is
  suspended in the \<open>wasm\<close> phase is a second run (attempt 2, the phases entered twice).
\<close>

theorem init_single_flight_counterexample:
  "init_enter (snd (init_enter (HyperGpuResourceManager, quiet_world [])))
     = (RunStarted,
        HyperGpuResourceManager\<lparr>phase := Ph_wasm, attemptCount := 2\<rparr>,
        (quiet_world [])\<lparr>phase_log := [Ph_environment, Ph_wasm, Ph_environment, Ph_wasm]\<rparr>)"
  by (simp add: init_enter_def HyperGpuResourceManager_def quiet_world_def)




section \<open>Facts about allocation and cleanup\<close>

lemma release_pointer_cache: "release_pointer (rm\<lparr>cache := c\<rparr>) = release_pointer rm"
  by (auto simp: release_pointer_def has_export_def createSimpleWasmPool_deallocate_def
        fun_eq_iff split: option.splits wasm_pool.splits)

lemma cleanupWasmMemory_cache:
  "cleanupWasmMemory (rm\<lparr>cache := c\<rparr>) ps w = cleanupWasmMemory rm ps w"
  by (induction ps arbitrary: w) (simp_all add: release_pointer_cache split: sum.splits)

lemma release_buffer_cache: "release_buffer (rm\<lparr>cache := c\<rparr>) = release_buffer rm"
  by (auto simp: release_buffer_def createSimpleBufferPool_deallocateBuffer_def
        fun_eq_iff split: option.splits buffer_pool.splits)

lemma cleanupWebGPUBuffers_cache:
  "cleanupWebGPUBuffers (rm\<lparr>cache := c\<rparr>) bs w = cleanupWebGPUBuffers rm bs w"
  by (induction bs arbitrary: w) (simp_all add: release_buffer_cache split: sum.splits)

lemma cleanupWasmMemory_keeps:
  "cleanupWasmMemory rm ps w = (r, w') \<Longrightarrow>
     allocated w' = allocated w \<and> invoked w' = invoked w
       \<and> pipelines_built w' = pipelines_built w"
proof (induction ps arbitrary: w)
  case Nil
  then show ?case by simp
next
  case (Cons entry ps)
  show ?case
  proof (cases "fst entry = 0")
    case True
    with Cons show ?thesis by simp
  next
    case False
    show ?thesis
    proof (cases "release_pointer rm entry w")
      case (Inl e)
      with False Cons.prems show ?thesis by simp
    next
      case (Inr w1)
      then have "allocated w1 = allocated w \<and> invoked w1 = invoked w
          \<and> pipelines_built w1 = pipelines_built w"
        by (cases entry)
           (auto simp: release_pointer_def free_memory_def createSimpleWasmPool_deallocate_def
                 split: option.splits wasm_pool.splits if_splits)
      moreover from Inr False Cons.prems have "cleanupWasmMemory rm ps w1 = (r, w')" by simp
      ultimately show ?thesis using Cons.IH by fastforce
    qed
  qed
qed

lemma cleanupWebGPUBuffers_keeps:
  "cleanupWebGPUBuffers rm bs w = (r, w') \<Longrightarrow>
     allocated w' = allocated w \<and> invoked w' = invoked w
       \<and> pipelines_built w' = pipelines_built w"
proof (induction bs arbitrary: w)
  case Nil
  then show ?case by simp
next
  case (Cons entry bs)
  show ?case
  proof (cases "fst entry = 0")
    case True
    with Cons show ?thesis by simp
  next
    case False
    show ?thesis
    proof (cases "release_buffer rm entry w")
      case (Inl e)
      with False Cons.prems show ?thesis by simp
    next
      case (Inr w1)
      then have "allocated w1 = allocated w \<and> invoked w1 = invoked w
          \<and> pipelines_built w1 = pipelines_built w"
        by (cases entry)
           (auto simp: release_buffer_def destroy_def createSimpleBufferPool_deallocateBuffer_def
                 split: option.splits buffer_pool.splits)
      moreover from Inr False Cons.prems have "cleanupWebGPUBuffers rm bs w1 = (r, w')" by simp
      ultimately show ?thesis using Cons.IH by fastforce
    qed
  qed
qed

lemma cleanupWasmMemory_without_pool:
  "wasmMemoryPool rm = None \<Longrightarrow> has_export rm ''free_memory'' \<Longrightarrow>
     cleanupWasmMemory rm ps w
       = (None, w\<lparr>released := released w
            @ map (\<lambda>entry. FreeMemory (fst entry)) (filter (\<lambda>entry. fst entry \<noteq> 0) ps)\<rparr>)"
  by (induction ps arbitrary: w) (simp_all add: release_pointer_def free_memory_def split_def)

lemma cleanupWebGPUBuffers_without_pool:
  "webgpuBufferPool rm = None \<Longrightarrow>
     cleanupWebGPUBuffers rm bs w
       = (None, w\<lparr>released := released w
            @ map (\<lambda>entry. BufferDestroy (fst entry)) (filter (\<lambda>entry. fst entry \<noteq> 0) bs)\<rparr>)"
  by (induction bs arbitrary: w) (simp_all add: release_buffer_def destroy_def split_def)

lemma allocate_log:
  "wasmMemoryPool rm = None \<Longrightarrow> allocate rm sz w = (r, w1) \<Longrightarrow>
     released w1 = released w
       \<and> allocated w1 = allocated w
           @ (case r of Inl e \<Rightarrow> [] | Inr ptr \<Rightarrow> if ptr = 0 then [] else [WasmAlloc ptr sz])"
  by (auto simp: allocate_def wasm_alloc_def split: if_splits list.splits)

lemma allocate_all_log:
  "wasmMemoryPool rm = None \<Longrightarrow> allocate_all rm sizes w ps = (r, ps', w') \<Longrightarrow>
     \<exists>new. ps' = ps @ new \<and> (\<forall>entry \<in> set new. fst entry \<noteq> 0)
       \<and> allocated w' = allocated w @ map (\<lambda>entry. WasmAlloc (fst entry) (snd entry)) new
       \<and> released w' = released w"
proof (induction sizes arbitrary: w ps r ps' w')
  case Nil
  then show ?case by simp
next
  case (Cons sz sizes)
  obtain r1 w1 where a: "allocate rm sz w = (r1, w1)" by (cases "allocate rm sz w")
  note l = allocate_log [OF Cons.prems(1) a]
  show ?case
  proof (cases r1)
    case (Inl e)
    with a Cons.prems(2) have "ps' = ps" "w' = w1" by simp_all
    with l Inl show ?thesis by simp
  next
    case (Inr ptr)
    show ?thesis
    proof (cases "ptr = 0")
      case True
      with a Inr Cons.prems(2) have "ps' = ps" "w' = w1" by simp_all
      with l Inr True show ?thesis by simp
    next
      case False
      obtain r2 ps2 w2 where rec: "allocate_all rm sizes w1 (ps @ [(ptr, sz)]) = (r2, ps2, w2)"
        by (cases "allocate_all rm sizes w1 (ps @ [(ptr, sz)])")
      from Cons.prems(2) a Inr False rec have eq: "ps' = ps2" "w' = w2"
        by (auto split: sum.splits)
      from Cons.IH [OF Cons.prems(1) rec] obtain new where n: "ps2 = (ps @ [(ptr, sz)]) @ new"
        "\<forall>entry \<in> set new. fst entry \<noteq> 0"
        "allocated w2 = allocated w1 @ map (\<lambda>entry. WasmAlloc (fst entry) (snd entry)) new"
        "released w2 = released w1"
        by blast
      show ?thesis
        using n l Inr eq False by (intro exI [of _ "(ptr, sz) # new"]) simp
    qed
  qed
qed

lemma allocate_buffers_log:
  "webgpuBufferPool rm = None \<Longrightarrow> allocate_buffers rm specs w bs = (r, bs', w') \<Longrightarrow>
     \<exists>new. bs' = bs @ new
       \<and> allocated w' = allocated w
           @ map (\<lambda>entry. CreateBuffer (fst entry) (fst (snd entry)) (snd (snd entry)))
               (filter (\<lambda>entry. fst entry \<noteq> 0) new)
       \<and> released w' = released w"
proof (induction specs arbitrary: w bs r bs' w')
  case Nil
  then show ?case by simp
next
  case (Cons spec specs)
  obtain sz usage where sp: "spec = (sz, usage)" by (cases spec)
  obtain buffer w1 where c: "createBuffer sz usage w = (buffer, w1)"
    by (cases "createBuffer sz usage w")
  then have w1: "released w1 = released w"
    "allocated w1 = allocated w
       @ (if buffer = 0 then [] else [CreateBuffer buffer sz usage])"
    by (auto simp: createBuffer_def split: list.splits)
  from c Cons.prems(1)
  have a: "allocateWebGPUBuffer rm sz usage w bs = (Inr buffer, bs @ [(buffer, sz, usage)], w1)"
    by (simp add: allocateWebGPUBuffer_def)
  obtain r2 bs2 w2 where rec:
    "allocate_buffers rm specs w1 (bs @ [(buffer, sz, usage)]) = (r2, bs2, w2)"
    by (cases "allocate_buffers rm specs w1 (bs @ [(buffer, sz, usage)])")
  from Cons.prems(2) sp a rec have eq: "bs' = bs2" "w' = w2" by (auto split: sum.splits)
  from Cons.IH [OF Cons.prems(1) rec] obtain new where n:
    "bs2 = (bs @ [(buffer, sz, usage)]) @ new"
    "allocated w2 = allocated w1
       @ map (\<lambda>entry. CreateBuffer (fst entry) (fst (snd entry)) (snd (snd entry)))
           (filter (\<lambda>entry. fst entry \<noteq> 0) new)"
    "released w2 = released w1"
    by blast
  show ?case
    using n w1 eq by (intro exI [of _ "(buffer, sz, usage) # new"]) simp
qed

section \<open>Facts about the execution frameworks\<close>

lemma cache_set_fields:
  "cache_set this key data = Inr this' \<Longrightarrow> \<exists>m'. this' = this\<lparr>cache := Some m'\<rparr>"
  by (auto simp: cache_set_def split: option.splits)

lemma cache_store_fields:
  "cache_store rm key data = Inr rm' \<Longrightarrow> \<exists>c. rm' = rm\<lparr>cache := c\<rparr>"
  by (cases rm) (auto simp: cache_store_def dest!: cache_set_fields split: if_splits)

lemma cache_update_self: "\<exists>c. (rm :: manager) = rm\<lparr>cache := c\<rparr>"
  by (rule exI [of _ "cache rm"]) simp

lemma executeWasm_try_keeps:
  assumes "executeWasm_try cacheKey setupResult executeWasm (rm, w) = (outcome, rm', w')"
  shows "allocated w' = allocated w \<and> released w' = released w
         \<and> (\<exists>c. rm' = rm\<lparr>cache := c\<rparr>)"
  using assms
  by (auto simp: executeWasm_try_def cache_update_self split: sum.splits
           dest!: cache_store_fields)

lemma getOrCreatePipeline_keeps:
  assumes "getOrCreatePipeline operationName createPipelineFunc (rm, w) = (outcome, rm', w')"
  shows "allocated w' = allocated w \<and> released w' = released w \<and> invoked w' = invoked w
         \<and> (\<exists>c. rm' = rm\<lparr>cache := c\<rparr>)"
  using assms
  by (auto simp: getOrCreatePipeline_def cache_update_self split: sum.splits option.splits
           dest!: cache_store_fields)

lemma executeWebGPU_try_keeps:
  assumes "executeWebGPU_try operationName cacheKey shouldCache setupResult createPipeline
             executeCompute (rm, w) = (outcome, rm', w')"
  shows "allocated w' = allocated w \<and> released w' = released w
         \<and> (\<exists>c. rm' = rm\<lparr>cache := c\<rparr>)"
proof (cases setupResult)
  case (Inl e)
  with assms show ?thesis by (auto simp: executeWebGPU_try_def cache_update_self)
next
  case (Inr buffers)
  obtain r1 rm1 w1 where p: "getOrCreatePipeline operationName createPipeline (rm, w) = (r1, rm1, w1)"
    by (cases "getOrCreatePipeline operationName createPipeline (rm, w)")
  from getOrCreatePipeline_keeps [OF p] obtain c where k: "allocated w1 = allocated w"
    "released w1 = released w" "rm1 = rm\<lparr>cache := c\<rparr>" by blast
  have "rm' = rm1 \<or> (\<exists>c'. rm' = rm1\<lparr>cache := c'\<rparr>)"
    using assms Inr p
    by (auto simp: executeWebGPU_try_def split: sum.splits if_splits dest!: cache_store_fields)
  then have "\<exists>c'. rm' = rm\<lparr>cache := c'\<rparr>"
    using k(3) by (auto simp: cache_update_self)
  moreover have "allocated w' = allocated w \<and> released w' = released w"
    using assms Inr p k(1,2)
    by (auto simp: executeWebGPU_try_def split: sum.splits if_splits)
  ultimately show ?thesis by simp
qed

text \<open>
  Without a pool, and with \<^verbatim>\<open>free_memory\<close> among the exports, the frameworks release
  what the handlers' closures allocate: the handles handed out during a call are exactly
  the handles given back during the call, on the success path and on every failure path.
\<close>

lemma frameworks_release_without_pool:
  "(wasmMemoryPool rm = None \<and> has_export rm ''free_memory''
      \<and> executeWasmWithMemoryManagement methodName (handler_setupMemory rm sizes marshal)
          executeWasm fp (rm, w) = (outcome, rm', w')
      \<longrightarrow> (\<exists>acquired. allocated w' = allocated w @ acquired
              \<and> released w' = released w @ map returned acquired))
   \<and> (webgpuBufferPool rm = None
      \<and> executeWebGPUCompute operationName (handler_setupBuffers rm specs write)
          createPipeline executeCompute fp (rm, w) = (outcome, rm', w')
      \<longrightarrow> (\<exists>acquired. allocated w' = allocated w @ acquired
              \<and> released w' = released w @ map returned acquired))"
proof (intro conjI impI)
  assume a: "wasmMemoryPool rm = None \<and> has_export rm ''free_memory''
      \<and> executeWasmWithMemoryManagement methodName (handler_setupMemory rm sizes marshal)
          executeWasm fp (rm, w) = (outcome, rm', w')"
  then have np: "wasmMemoryPool rm = None" and fm: "has_export rm ''free_memory''"
    and run: "executeWasmWithMemoryManagement methodName (handler_setupMemory rm sizes marshal)
          executeWasm fp (rm, w) = (outcome, rm', w')" by simp_all
  let ?key = "methodName @ ''_'' @ fp"
  show "\<exists>acquired. allocated w' = allocated w @ acquired
              \<and> released w' = released w @ map returned acquired"
  proof (cases "cache_lookup rm ?key = Inr None")
    case False
    with run have "w' = w"
      by (auto simp: executeWasmWithMemoryManagement_def split: sum.splits option.splits)
    then show ?thesis by (intro exI [of _ "[]"]) simp
  next
    case True
    obtain r0 ps w1 where al: "allocate_all rm sizes w [] = (r0, ps, w1)"
      by (cases "allocate_all rm sizes w []")
    define sr where "sr = (case r0 of Inl e \<Rightarrow> Inl e | Inr ptrs \<Rightarrow> marshal ptrs)"
    have su: "handler_setupMemory rm sizes marshal w [] = (sr, ps, w1)"
      using al by (auto simp: handler_setupMemory_def sr_def split: sum.splits)
    obtain out rm2 w2 where tr: "executeWasm_try ?key sr executeWasm (rm, w1) = (out, rm2, w2)"
      by (cases "executeWasm_try ?key sr executeWasm (rm, w1)")
    from executeWasm_try_keeps [OF tr] obtain c where k: "allocated w2 = allocated w1"
      "released w2 = released w1" "rm2 = rm\<lparr>cache := c\<rparr>" by blast
    have cl: "cleanupWasmMemory rm2 ps w2
        = (None, w2\<lparr>released := released w2
            @ map (\<lambda>entry. FreeMemory (fst entry)) (filter (\<lambda>entry. fst entry \<noteq> 0) ps)\<rparr>)"
      unfolding k(3) cleanupWasmMemory_cache using np fm by (rule cleanupWasmMemory_without_pool)
    from run True su tr cl have res:
      "w' = w2\<lparr>released := released w2
            @ map (\<lambda>entry. FreeMemory (fst entry)) (filter (\<lambda>entry. fst entry \<noteq> 0) ps)\<rparr>"
      by (auto simp: executeWasmWithMemoryManagement_def)
    from allocate_all_log [OF np al] obtain new where n: "ps = [] @ new"
      "\<forall>entry \<in> set new. fst entry \<noteq> 0"
      "allocated w1 = allocated w @ map (\<lambda>entry. WasmAlloc (fst entry) (snd entry)) new"
      "released w1 = released w"
      by blast
    have f: "filter (\<lambda>entry. fst entry \<noteq> 0) new = new" using n(2) by (simp add: filter_id_conv)
    let ?acq = "map (\<lambda>entry. WasmAlloc (fst entry) (snd entry)) new"
    have "allocated w' = allocated w @ ?acq"
      using res k n by simp
    moreover have "released w' = released w @ map returned ?acq"
      using res k n f by (simp add: comp_def)
    ultimately show ?thesis by blast
  qed
next
  assume a: "webgpuBufferPool rm = None
      \<and> executeWebGPUCompute operationName (handler_setupBuffers rm specs write)
          createPipeline executeCompute fp (rm, w) = (outcome, rm', w')"
  then have np: "webgpuBufferPool rm = None"
    and run: "executeWebGPUCompute operationName (handler_setupBuffers rm specs write)
          createPipeline executeCompute fp (rm, w) = (outcome, rm', w')" by simp_all
  let ?key = "''gpu_'' @ operationName @ ''_'' @ fp"
  let ?look = "if shouldCacheResult fp then cache_lookup rm ?key else Inr None"
  show "\<exists>acquired. allocated w' = allocated w @ acquired
              \<and> released w' = released w @ map returned acquired"
  proof (cases "webgpuCore rm = Some True \<and> ?look = Inr None")
    case False
    with run have "w' = w"
      by (auto simp: executeWebGPUCompute_def split: sum.splits option.splits if_splits)
    then show ?thesis by (intro exI [of _ "[]"]) simp
  next
    case True
    obtain r0 bs w1 where al: "allocate_buffers rm specs w [] = (r0, bs, w1)"
      by (cases "allocate_buffers rm specs w []")
    define sr where "sr = (case r0 of Inl e \<Rightarrow> Inl e | Inr buffers \<Rightarrow> write buffers)"
    have su: "handler_setupBuffers rm specs write w [] = (sr, bs, w1)"
      using al by (auto simp: handler_setupBuffers_def sr_def split: sum.splits)
    obtain out rm2 w2 where tr: "executeWebGPU_try operationName ?key (shouldCacheResult fp)
        sr createPipeline executeCompute (rm, w1) = (out, rm2, w2)"
      by (cases "executeWebGPU_try operationName ?key (shouldCacheResult fp)
        sr createPipeline executeCompute (rm, w1)")
    from executeWebGPU_try_keeps [OF tr] obtain c where k: "allocated w2 = allocated w1"
      "released w2 = released w1" "rm2 = rm\<lparr>cache := c\<rparr>" by blast
    have cl: "cleanupWebGPUBuffers rm2 bs w2
        = (None, w2\<lparr>released := released w2
            @ map (\<lambda>entry. BufferDestroy (fst entry)) (filter (\<lambda>entry. fst entry \<noteq> 0) bs)\<rparr>)"
      unfolding k(3) cleanupWebGPUBuffers_cache using np by (rule cleanupWebGPUBuffers_without_pool)
    from run True su tr cl have res:
      "w' = w2\<lparr>released := released w2
            @ map (\<lambda>entry. BufferDestroy (fst entry)) (filter (\<lambda>entry. fst entry \<noteq> 0) bs)\<rparr>"
      by (auto simp: executeWebGPUCompute_def)
    from allocate_buffers_log [OF np al] obtain new where n: "bs = [] @ new"
      "allocated w1 = allocated w
         @ map (\<lambda>entry. CreateBuffer (fst entry) (fst (snd entry)) (snd (snd entry)))
             (filter (\<lambda>entry. fst entry \<noteq> 0) new)"
      "released w1 = released w"
      by blast
    let ?acq = "map (\<lambda>entry. CreateBuffer (fst entry) (fst (snd entry)) (snd (snd entry)))
             (filter (\<lambda>entry. fst entry \<noteq> 0) new)"
    have "allocated w' = allocated w @ ?acq"
      using res k n by simp
    moreover have "released w' = released w @ map returned ?acq"
      using res k n by (simp add: comp_def)
    ultimately show ?thesis by blast
  qed
qed

text \<open>
  With the simplified memory system as \<^verbatim>\<open>initMemoryOptimization\<close> installs it, a call
  through either framework ends at the cache check: \<^verbatim>\<open>get\<close> raises \<open>TypeError\<close>
  before anything is allocated.
\<close>

lemma simplified_system_fails_at_cache_check:
  "handleNormalizeVector 3 (\<lambda>ptrs. Inr ptrs)
       (\<lambda>memoryInfo. Inr (JArr [JNum 1, JNum 0, JNum 0])) ''[2,0,0]''
       (simplified_manager, quiet_world [1024])
     = (Inl TypeError, simplified_manager, quiet_world [1024])
   \<and> executeWebGPUCompute ''vector_add''
        (handler_setupBuffers simplified_manager [(12, 136), (12, 136), (12, 132)]
           (\<lambda>buffers. Inr buffers))
        (Inr (JObj [(''pipeline'', JStr ''p''), (''bindGroupLayout'', JStr ''l'')]))
        (\<lambda>buffers pipelineResult. Inr (JArr [JNum 5, JNum 7, JNum 9])) ''[3,[1,2,3],[4,5,6]]''
        (simplified_manager, quiet_world [1, 2, 3])
     = (Inl TypeError, simplified_manager, quiet_world [1, 2, 3])"
  by (simp add: handleNormalizeVector_def executeWasmWithMemoryManagement_def
      executeWebGPUCompute_def shouldCacheResult_def cache_lookup_def cache_get_def
      simplified_manager_def simple_pool_manager_def HyperGpuResourceManager_def)


section \<open>Facts about caching in the frameworks\<close>

lemma cache_get_after_set:
  "cache_set this key data = Inr this' \<Longrightarrow>
     cache_get this' key = Inr (if truthy data then data else JNull)"
  by (auto simp: cache_set_def cache_get_def map_of_update_same split: option.splits)

lemma cache_lookup_after_store:
  "cacheManager rm \<Longrightarrow> cache_store rm key data = Inr rm' \<Longrightarrow>
     cacheManager rm' \<and> cache_lookup rm' key = Inr (if truthy data then Some data else None)"
  by (frule cache_store_fields)
     (auto simp: cache_store_def cache_lookup_def dest!: cache_get_after_set)

lemma falsy_entry_is_a_miss:
  "cacheManager rm \<Longrightarrow> cache rm = Some m \<Longrightarrow> map_of m key = Some stored \<Longrightarrow> \<not> truthy stored
     \<Longrightarrow> cache_get rm key = Inr JNull \<and> cache_lookup rm key = Inr None"
  by (simp add: cache_lookup_def cache_get_def)

lemma executeWasm_hit:
  "cache_lookup rm (methodName @ ''_'' @ fp) = Inr (Some cached) \<Longrightarrow>
     executeWasmWithMemoryManagement methodName setupMemory executeWasm fp (rm, w)
       = (Inr cached, rm, w)"
  by (simp add: executeWasmWithMemoryManagement_def)

lemma executeWasm_miss_success:
  "cache_lookup rm (methodName @ ''_'' @ fp) = Inr None \<Longrightarrow>
   setupMemory w [] = (Inr memoryInfo, allocatedPointers, w1) \<Longrightarrow>
   executeWasm memoryInfo = Inr result \<Longrightarrow>
   cache_store rm (methodName @ ''_'' @ fp) result = Inr rm' \<Longrightarrow>
     executeWasmWithMemoryManagement methodName setupMemory executeWasm fp (rm, w)
       = (case cleanupWasmMemory rm' allocatedPointers (w1\<lparr>invoked := invoked w1 + 1\<rparr>) of
            (None, w3) \<Rightarrow> (Inr result, rm', w3)
          | (Some e, w3) \<Rightarrow> (Inl e, rm', w3))"
  by (simp add: executeWasmWithMemoryManagement_def executeWasm_try_def)

lemma executeWasm_try_success:
  "executeWasm_try cacheKey setupResult executeWasm (rm, w) = (Inr result, rm', w') \<Longrightarrow>
     cache_store rm cacheKey result = Inr rm'"
  by (auto simp: executeWasm_try_def split: sum.splits)

lemma getOrCreatePipeline_fields:
  "getOrCreatePipeline operationName createPipelineFunc (rm, w) = (outcome, rm', w') \<Longrightarrow>
     \<exists>c. rm' = rm\<lparr>cache := c\<rparr>"
proof -
  assume a: "getOrCreatePipeline operationName createPipelineFunc (rm, w) = (outcome, rm', w')"
  have same: "rm = rm\<lparr>cache := cache rm\<rparr>" by simp
  from a have "rm' = rm \<or> (\<exists>p. cache_store rm (operationName @ ''_pipeline'') p = Inr rm')"
    by (auto simp: getOrCreatePipeline_def split: sum.splits option.splits)
  then show ?thesis
    using same cache_store_fields by metis
qed

lemma executeWebGPU_try_success:
  assumes "executeWebGPU_try operationName cacheKey shouldCache setupResult createPipeline
             executeCompute (rm, w) = (Inr result, rm', w')"
  shows "\<exists>c rm1. rm1 = rm\<lparr>cache := c\<rparr>
           \<and> (if shouldCache then cache_store rm1 cacheKey result else Inr rm1) = Inr rm'"
proof -
  obtain r1 rm1 w1 where p: "getOrCreatePipeline operationName createPipeline (rm, w) = (r1, rm1, w1)"
    by (cases "getOrCreatePipeline operationName createPipeline (rm, w)")
  from getOrCreatePipeline_fields [OF p] obtain c where c: "rm1 = rm\<lparr>cache := c\<rparr>" by blast
  from assms p have "(if shouldCache then cache_store rm1 cacheKey result else Inr rm1) = Inr rm'"
    by (auto simp: executeWebGPU_try_def split: sum.splits if_splits)
  with c show ?thesis by blast
qed

text \<open>
  C4, as amended. When a call through either framework returns a truthy result with a
  cache manager present (and, on the GPU, a fingerprint of at most 10000 characters), the
  next call with the same operation name and fingerprint returns that very result from the
  cache and changes neither the manager nor the world: nothing is allocated, released or
  invoked, whatever closures the second call carries.
\<close>

theorem second_call_served_from_cache:
  "(cacheManager rm \<and> truthy result
      \<and> executeWasmWithMemoryManagement methodName setupMemory executeWasm fp (rm, w)
          = (Inr result, rm1, w1)
      \<longrightarrow> executeWasmWithMemoryManagement methodName setupMemory2 executeWasm2 fp (rm1, w1)
          = (Inr result, rm1, w1))
   \<and> (cacheManager rm \<and> truthy result \<and> shouldCacheResult fp
      \<and> executeWebGPUCompute operationName setupBuffers createPipeline executeCompute fp (rm, w)
          = (Inr result, rm2, w2)
      \<longrightarrow> executeWebGPUCompute operationName setupBuffers2 createPipeline2 executeCompute2 fp
            (rm2, w2)
          = (Inr result, rm2, w2))"
proof (intro conjI impI)
  let ?key = "methodName @ ''_'' @ fp"
  assume a: "cacheManager rm \<and> truthy result
      \<and> executeWasmWithMemoryManagement methodName setupMemory executeWasm fp (rm, w)
          = (Inr result, rm1, w1)"
  then have cm: "cacheManager rm" and tr: "truthy result"
    and run: "executeWasmWithMemoryManagement methodName setupMemory executeWasm fp (rm, w)
          = (Inr result, rm1, w1)" by simp_all
  have "cache_lookup rm1 ?key = Inr (Some result)"
  proof (cases "cache_lookup rm ?key")
    case (Inl e)
    with run show ?thesis by (simp add: executeWasmWithMemoryManagement_def)
  next
    case (Inr hit)
    show ?thesis
    proof (cases hit)
      case (Some cached)
      with Inr run show ?thesis by (simp add: executeWasmWithMemoryManagement_def)
    next
      case None
      obtain sr ps ws where su: "setupMemory w [] = (sr, ps, ws)" by (cases "setupMemory w []")
      obtain out rmt wt where t: "executeWasm_try ?key sr executeWasm (rm, ws) = (out, rmt, wt)"
        by (cases "executeWasm_try ?key sr executeWasm (rm, ws)")
      from run Inr None su t have "out = Inr result" "rmt = rm1"
        by (auto simp: executeWasmWithMemoryManagement_def split: prod.splits option.splits)
      with t have "cache_store rm ?key result = Inr rm1"
        using executeWasm_try_success by blast
      with cm tr show ?thesis using cache_lookup_after_store by fastforce
    qed
  qed
  then show "executeWasmWithMemoryManagement methodName setupMemory2 executeWasm2 fp (rm1, w1)
          = (Inr result, rm1, w1)"
    by (rule executeWasm_hit)
next
  let ?key = "''gpu_'' @ operationName @ ''_'' @ fp"
  assume a: "cacheManager rm \<and> truthy result \<and> shouldCacheResult fp
      \<and> executeWebGPUCompute operationName setupBuffers createPipeline executeCompute fp (rm, w)
          = (Inr result, rm2, w2)"
  then have cm: "cacheManager rm" and tr: "truthy result" and sc: "shouldCacheResult fp"
    and run: "executeWebGPUCompute operationName setupBuffers createPipeline executeCompute fp (rm, w)
          = (Inr result, rm2, w2)" by simp_all
  from run have core: "webgpuCore rm = Some True"
    by (auto simp: executeWebGPUCompute_def split: if_splits)
  have "cache_lookup rm2 ?key = Inr (Some result) \<and> webgpuCore rm2 = Some True"
  proof (cases "cache_lookup rm ?key")
    case (Inl e)
    with run core sc show ?thesis by (simp add: executeWebGPUCompute_def)
  next
    case (Inr hit)
    show ?thesis
    proof (cases hit)
      case (Some cached)
      with Inr run core sc show ?thesis by (simp add: executeWebGPUCompute_def)
    next
      case None
      obtain sr bs ws where su: "setupBuffers w [] = (sr, bs, ws)" by (cases "setupBuffers w []")
      obtain out rmt wt where t: "executeWebGPU_try operationName ?key (shouldCacheResult fp) sr
          createPipeline executeCompute (rm, ws) = (out, rmt, wt)"
        by (cases "executeWebGPU_try operationName ?key (shouldCacheResult fp) sr
          createPipeline executeCompute (rm, ws)")
      from run Inr None su t core sc have "out = Inr result" "rmt = rm2"
        by (auto simp: executeWebGPUCompute_def split: prod.splits option.splits)
      with t sc obtain c rmp where rmp: "rmp = rm\<lparr>cache := c\<rparr>"
        "cache_store rmp ?key result = Inr rm2"
        using executeWebGPU_try_success by fastforce
      from rmp(1) cm core have "cacheManager rmp" "webgpuCore rmp = Some True" by simp_all
      moreover from cache_store_fields [OF rmp(2)] obtain c' where "rm2 = rmp\<lparr>cache := c'\<rparr>" by blast
      ultimately show ?thesis
        using tr rmp(2) cache_lookup_after_store by fastforce
    qed
  qed
  with sc show "executeWebGPUCompute operationName setupBuffers2 createPipeline2 executeCompute2 fp
            (rm2, w2) = (Inr result, rm2, w2)"
    by (simp add: executeWebGPUCompute_def)
qed

theorem second_call_served_from_cache_witness:
  "cacheManager caching_manager \<and> truthy (JArr [JNum 1, JNum 0, JNum 0])
   \<and> executeWasmWithMemoryManagement ''normalizeVector''
        (handler_setupMemory caching_manager [12] (\<lambda>ptrs. Inr ptrs))
        (\<lambda>memoryInfo. Inr (JArr [JNum 1, JNum 0, JNum 0])) ''[2,0,0]''
        (caching_manager, quiet_world [1024])
     = (Inr (JArr [JNum 1, JNum 0, JNum 0]),
        caching_manager\<lparr>cache := Some [(''normalizeVector_[2,0,0]'',
                                          JArr [JNum 1, JNum 0, JNum 0])]\<rparr>,
        (quiet_world [])\<lparr>allocated := [WasmAlloc 1024 12], released := [FreeMemory 1024],
                          invoked := 1\<rparr>)
   \<and> executeWasmWithMemoryManagement ''normalizeVector''
        (handler_setupMemory caching_manager [12] (\<lambda>ptrs. Inr ptrs))
        (\<lambda>memoryInfo. Inr (JArr [JNum 1, JNum 0, JNum 0])) ''[2,0,0]''
        (caching_manager\<lparr>cache := Some [(''normalizeVector_[2,0,0]'',
                                          JArr [JNum 1, JNum 0, JNum 0])]\<rparr>,
         (quiet_world [])\<lparr>allocated := [WasmAlloc 1024 12], released := [FreeMemory 1024],
                          invoked := 1\<rparr>)
     = (Inr (JArr [JNum 1, JNum 0, JNum 0]),
        caching_manager\<lparr>cache := Some [(''normalizeVector_[2,0,0]'',
                                          JArr [JNum 1, JNum 0, JNum 0])]\<rparr>,
        (quiet_world [])\<lparr>allocated := [WasmAlloc 1024 12], released := [FreeMemory 1024],
                          invoked := 1\<rparr>)
   \<and> truthy (JArr [JNum 5, JNum 7, JNum 9]) \<and> shouldCacheResult ''[3,[1,2,3],[4,5,6]]''
   \<and> executeWebGPUCompute ''vector_add''
        (handler_setupBuffers caching_manager [(12, 136), (12, 136), (12, 132)]
           (\<lambda>buffers. Inr buffers))
        (Inr (JObj [(''pipeline'', JStr ''p''), (''bindGroupLayout'', JStr ''l'')]))
        (\<lambda>buffers pipelineResult. Inr (JArr [JNum 5, JNum 7, JNum 9])) ''[3,[1,2,3],[4,5,6]]''
        (caching_manager, quiet_world [1, 2, 3])
     = (Inr (JArr [JNum 5, JNum 7, JNum 9]),
        caching_manager\<lparr>cache := Some
           [(''vector_add_pipeline'',
             JObj [(''pipeline'', JStr ''p''), (''bindGroupLayout'', JStr ''l'')]),
            (''gpu_vector_add_[3,[1,2,3],[4,5,6]]'', JArr [JNum 5, JNum 7, JNum 9])]\<rparr>,
        (quiet_world [])\<lparr>allocated := [CreateBuffer 1 12 136, CreateBuffer 2 12 136,
                                        CreateBuffer 3 12 132],
                          released := [BufferDestroy 1, BufferDestroy 2, BufferDestroy 3],
                          invoked := 1, pipelines_built := 1\<rparr>)
   \<and> executeWebGPUCompute ''vector_add''
        (handler_setupBuffers caching_manager [(12, 136), (12, 136), (12, 132)]
           (\<lambda>buffers. Inr buffers))
        (Inr (JObj [(''pipeline'', JStr ''p''), (''bindGroupLayout'', JStr ''l'')]))
        (\<lambda>buffers pipelineResult. Inr (JArr [JNum 5, JNum 7, JNum 9])) ''[3,[1,2,3],[4,5,6]]''
        (caching_manager\<lparr>cache := Some
           [(''vector_add_pipeline'',
             JObj [(''pipeline'', JStr ''p''), (''bindGroupLayout'', JStr ''l'')]),
            (''gpu_vector_add_[3,[1,2,3],[4,5,6]]'', JArr [JNum 5, JNum 7, JNum 9])]\<rparr>,
         (quiet_world [])\<lparr>allocated := [CreateBuffer 1 12 136, CreateBuffer 2 12 136,
                                        CreateBuffer 3 12 132],
                          released := [BufferDestroy 1, BufferDestroy 2, BufferDestroy 3],
                          invoked := 1, pipelines_built := 1\<rparr>)
     = (Inr (JArr [JNum 5, JNum 7, JNum 9]),
        caching_manager\<lparr>cache := Some
           [(''vector_add_pipeline'',
             JObj [(''pipeline'', JStr ''p''), (''bindGroupLayout'', JStr ''l'')]),
            (''gpu_vector_add_[3,[1,2,3],[4,5,6]]'', JArr [JNum 5, JNum 7, JNum 9])]\<rparr>,
        (quiet_world [])\<lparr>allocated := [CreateBuffer 1 12 136, CreateBuffer 2 12 136,
                                        CreateBuffer 3 12 132],
                          released := [BufferDestroy 1, BufferDestroy 2, BufferDestroy 3],
                          invoked := 1, pipelines_built := 1\<rparr>)"
proof -
  have cm: "cacheManager caching_manager" by (simp add: caching_manager_def)
  have tr: "truthy (JArr [JNum 1, JNum 0, JNum 0])" by simp
  have first: "executeWasmWithMemoryManagement ''normalizeVector''
        (handler_setupMemory caching_manager [12] (\<lambda>ptrs. Inr ptrs))
        (\<lambda>memoryInfo. Inr (JArr [JNum 1, JNum 0, JNum 0])) ''[2,0,0]''
        (caching_manager, quiet_world [1024])
     = (Inr (JArr [JNum 1, JNum 0, JNum 0]),
        caching_manager\<lparr>cache := Some [(''normalizeVector_[2,0,0]'',
                                          JArr [JNum 1, JNum 0, JNum 0])]\<rparr>,
        (quiet_world [])\<lparr>allocated := [WasmAlloc 1024 12], released := [FreeMemory 1024],
                          invoked := 1\<rparr>)"
    by (simp add: executeWasmWithMemoryManagement_def
      cache_lookup_def cache_get_def cache_store_def cache_set_def cache_full_def
      caching_manager_def HyperGpuResourceManager_def quiet_world_def handler_setupMemory_def
      allocate_def wasm_alloc_def has_export_def executeWasm_try_def release_pointer_def
      free_memory_def)
  note second = second_call_served_from_cache
      [THEN conjunct1, THEN mp, OF conjI [OF cm conjI [OF tr first]]]
  have tg: "truthy (JArr [JNum 5, JNum 7, JNum 9])" by simp
  have sc: "shouldCacheResult ''[3,[1,2,3],[4,5,6]]''" by (simp add: shouldCacheResult_def)
  have gfirst: "executeWebGPUCompute ''vector_add''
        (handler_setupBuffers caching_manager [(12, 136), (12, 136), (12, 132)]
           (\<lambda>buffers. Inr buffers))
        (Inr (JObj [(''pipeline'', JStr ''p''), (''bindGroupLayout'', JStr ''l'')]))
        (\<lambda>buffers pipelineResult. Inr (JArr [JNum 5, JNum 7, JNum 9])) ''[3,[1,2,3],[4,5,6]]''
        (caching_manager, quiet_world [1, 2, 3])
     = (Inr (JArr [JNum 5, JNum 7, JNum 9]),
        caching_manager\<lparr>cache := Some
           [(''vector_add_pipeline'',
             JObj [(''pipeline'', JStr ''p''), (''bindGroupLayout'', JStr ''l'')]),
            (''gpu_vector_add_[3,[1,2,3],[4,5,6]]'', JArr [JNum 5, JNum 7, JNum 9])]\<rparr>,
        (quiet_world [])\<lparr>allocated := [CreateBuffer 1 12 136, CreateBuffer 2 12 136,
                                        CreateBuffer 3 12 132],
                          released := [BufferDestroy 1, BufferDestroy 2, BufferDestroy 3],
                          invoked := 1, pipelines_built := 1\<rparr>)"
    by (simp add: executeWebGPUCompute_def cache_lookup_def cache_get_def cache_store_def
        cache_set_def cache_full_def shouldCacheResult_def getOrCreatePipeline_def
        caching_manager_def HyperGpuResourceManager_def quiet_world_def handler_setupBuffers_def
        allocateWebGPUBuffer_def createBuffer_def executeWebGPU_try_def release_buffer_def
        destroy_def)
  note gsecond = second_call_served_from_cache
      [THEN conjunct2, THEN mp, OF conjI [OF cm conjI [OF tg conjI [OF sc gfirst]]]]
  show ?thesis
    using cm tr first second tg sc gfirst gsecond by (intro conjI) assumption+
qed

text \<open>
  C4 as stated fails for a falsy result: two consecutive calls whose kernel returns the
  scalar \<open>0\<close> invoke the kernel twice and allocate twice, although the first call stored
  its result.
\<close>

theorem second_call_recomputes_counterexample:
  "executeWasmWithMemoryManagement ''dot''
        (handler_setupMemory caching_manager [12, 12] (\<lambda>ptrs. Inr ptrs))
        (\<lambda>memoryInfo. Inr (JNum 0)) ''[[1,0,0],[0,1,0]]''
        (caching_manager, quiet_world [16, 32, 48, 64])
     = (Inr (JNum 0),
        caching_manager\<lparr>cache := Some [(''dot_[[1,0,0],[0,1,0]]'', JNum 0)]\<rparr>,
        (quiet_world [48, 64])\<lparr>allocated := [WasmAlloc 16 12, WasmAlloc 32 12],
                          released := [FreeMemory 16, FreeMemory 32], invoked := 1\<rparr>)
   \<and> executeWasmWithMemoryManagement ''dot''
        (handler_setupMemory caching_manager [12, 12] (\<lambda>ptrs. Inr ptrs))
        (\<lambda>memoryInfo. Inr (JNum 0)) ''[[1,0,0],[0,1,0]]''
        (caching_manager\<lparr>cache := Some [(''dot_[[1,0,0],[0,1,0]]'', JNum 0)]\<rparr>,
         (quiet_world [48, 64])\<lparr>allocated := [WasmAlloc 16 12, WasmAlloc 32 12],
                          released := [FreeMemory 16, FreeMemory 32], invoked := 1\<rparr>)
     = (Inr (JNum 0),
        caching_manager\<lparr>cache := Some [(''dot_[[1,0,0],[0,1,0]]'', JNum 0)]\<rparr>,
        (quiet_world [])\<lparr>allocated := [WasmAlloc 16 12, WasmAlloc 32 12,
                                        WasmAlloc 48 12, WasmAlloc 64 12],
                          released := [FreeMemory 16, FreeMemory 32, FreeMemory 48, FreeMemory 64],
                          invoked := 2\<rparr>)"
  by (simp add: executeWasmWithMemoryManagement_def
      cache_lookup_def cache_get_def cache_store_def cache_set_def cache_full_def
      caching_manager_def HyperGpuResourceManager_def quiet_world_def handler_setupMemory_def
      allocate_def wasm_alloc_def has_export_def executeWasm_try_def release_pointer_def
      free_memory_def)

lemma cache_store_keeps_entry:
  "cacheManager rm \<Longrightarrow> cache rm = Some m \<Longrightarrow>
     \<exists>rm' m'. cache_store rm key data = Inr rm' \<and> cacheManager rm' \<and> cache rm' = Some m'
        \<and> map_of m' key = Some data"
  by (simp add: cache_store_def cache_set_def map_of_update_same)

lemma getOrCreatePipeline_cache:
  assumes "cacheManager rm" and "cache rm = Some m"
    and "getOrCreatePipeline operationName createPipelineFunc (rm, w) = (outcome, rm1, w1)"
  shows "cacheManager rm1 \<and> (\<exists>m1. cache rm1 = Some m1)"
  using assms
  by (auto simp: getOrCreatePipeline_def cache_store_def cache_set_def
           split: sum.splits option.splits if_splits)

text \<open>
  C9. When the cache holds a falsy value under the key of a call, \<open>get\<close> answers
  \<open>null\<close> and the hit test fails. In the linear-memory framework the call then runs the
  setup closure, invokes the kernel and stores the result again; in the GPU framework (for
  a fingerprint within the size limit) it runs the setup closure, obtains the pipeline,
  invokes the compute step and stores the result again. A falsy result leaves the entry
  falsy, so the next lookup of the key misses too: the same holds for the next call and
  for every call after it. The outcome is the result, unless the cleanup raises.
\<close>

theorem falsy_result_recomputed:
  "(cacheManager rm \<and> cache rm = Some m
      \<and> map_of m (methodName @ ''_'' @ fp) = Some stored \<and> \<not> truthy stored
      \<and> setupMemory w [] = (Inr memoryInfo, allocatedPointers, w1)
      \<and> executeWasm memoryInfo = Inr result \<and> \<not> truthy result
      \<and> executeWasmWithMemoryManagement methodName setupMemory executeWasm fp (rm, w)
          = (outcome, rm', w')
    \<longrightarrow> cache_get rm (methodName @ ''_'' @ fp) = Inr JNull
        \<and> invoked w' = invoked w1 + 1
        \<and> outcome = (case fst (cleanupWasmMemory rm allocatedPointers
                                   (w1\<lparr>invoked := invoked w1 + 1\<rparr>)) of
                        None \<Rightarrow> Inr result | Some e \<Rightarrow> Inl e)
        \<and> cacheManager rm'
        \<and> (\<exists>m'. cache rm' = Some m' \<and> map_of m' (methodName @ ''_'' @ fp) = Some result)
        \<and> cache_lookup rm' (methodName @ ''_'' @ fp) = Inr None)
   \<and> (webgpuCore rm = Some True \<and> shouldCacheResult fp
      \<and> cacheManager rm \<and> cache rm = Some m
      \<and> map_of m (''gpu_'' @ operationName @ ''_'' @ fp) = Some stored \<and> \<not> truthy stored
      \<and> setupBuffers w [] = (Inr buffers, allocatedBuffers, w1)
      \<and> getOrCreatePipeline operationName createPipeline (rm, w1) = (Inr pipelineResult, rm1, w2)
      \<and> pipelineResult \<noteq> JNull \<and> pipelineResult \<noteq> JUndefined
      \<and> executeCompute buffers pipelineResult = Inr result \<and> \<not> truthy result
      \<and> executeWebGPUCompute operationName setupBuffers createPipeline executeCompute fp (rm, w)
          = (outcome, rm', w')
    \<longrightarrow> cache_get rm (''gpu_'' @ operationName @ ''_'' @ fp) = Inr JNull
        \<and> invoked w' = invoked w1 + 1
        \<and> outcome = (case fst (cleanupWebGPUBuffers rm allocatedBuffers
                                   (w2\<lparr>invoked := invoked w2 + 1\<rparr>)) of
                        None \<Rightarrow> Inr result | Some e \<Rightarrow> Inl e)
        \<and> cacheManager rm'
        \<and> (\<exists>m'. cache rm' = Some m'
              \<and> map_of m' (''gpu_'' @ operationName @ ''_'' @ fp) = Some result)
        \<and> cache_lookup rm' (''gpu_'' @ operationName @ ''_'' @ fp) = Inr None)"
proof (intro conjI impI)
  let ?key = "methodName @ ''_'' @ fp"
  assume a: "cacheManager rm \<and> cache rm = Some m
      \<and> map_of m ?key = Some stored \<and> \<not> truthy stored
      \<and> setupMemory w [] = (Inr memoryInfo, allocatedPointers, w1)
      \<and> executeWasm memoryInfo = Inr result \<and> \<not> truthy result
      \<and> executeWasmWithMemoryManagement methodName setupMemory executeWasm fp (rm, w)
          = (outcome, rm', w')"
  then have cm: "cacheManager rm" and c: "cache rm = Some m"
    and e: "map_of m ?key = Some stored" and fs: "\<not> truthy stored"
    and su: "setupMemory w [] = (Inr memoryInfo, allocatedPointers, w1)"
    and ex: "executeWasm memoryInfo = Inr result" and fr: "\<not> truthy result"
    and run: "executeWasmWithMemoryManagement methodName setupMemory executeWasm fp (rm, w)
          = (outcome, rm', w')" by simp_all
  from falsy_entry_is_a_miss [OF cm c e fs]
  have miss: "cache_get rm ?key = Inr JNull" "cache_lookup rm ?key = Inr None" by simp_all
  from cache_store_keeps_entry [OF cm c, of ?key result]
  obtain rms m' where st: "cache_store rm ?key result = Inr rms" "cacheManager rms"
    "cache rms = Some m'" "map_of m' ?key = Some result" by blast
  from cache_store_fields [OF st(1)] obtain c' where rms: "rms = rm\<lparr>cache := c'\<rparr>" by blast
  let ?w = "w1\<lparr>invoked := invoked w1 + 1\<rparr>"
  obtain r w3 where cl: "cleanupWasmMemory rm allocatedPointers ?w = (r, w3)"
    by (cases "cleanupWasmMemory rm allocatedPointers ?w")
  then have cls: "cleanupWasmMemory rms allocatedPointers ?w = (r, w3)"
    by (simp add: rms cleanupWasmMemory_cache)
  from cleanupWasmMemory_keeps [OF cl] have inv: "invoked w3 = invoked w1 + 1" by simp
  from executeWasm_miss_success [where setupMemory = setupMemory and executeWasm = executeWasm,
      OF miss(2) su ex st(1)] run cls
  have res: "outcome = (case r of None \<Rightarrow> Inr result | Some e \<Rightarrow> Inl e)" "rm' = rms" "w' = w3"
    by (auto split: option.splits)
  from falsy_entry_is_a_miss [OF st(2,3,4) fr]
  have again: "cache_lookup rms ?key = Inr None" by simp
  show "cache_get rm ?key = Inr JNull" by (rule miss(1))
  show "invoked w' = invoked w1 + 1" using res inv by simp
  show "outcome = (case fst (cleanupWasmMemory rm allocatedPointers ?w) of
                        None \<Rightarrow> Inr result | Some e \<Rightarrow> Inl e)"
    using res cl by simp
  show "cacheManager rm'" using res st by simp
  show "\<exists>m'. cache rm' = Some m' \<and> map_of m' ?key = Some result" using res st by simp
  show "cache_lookup rm' ?key = Inr None" using res again by simp
next
  let ?key = "''gpu_'' @ operationName @ ''_'' @ fp"
  assume a: "webgpuCore rm = Some True \<and> shouldCacheResult fp
      \<and> cacheManager rm \<and> cache rm = Some m
      \<and> map_of m ?key = Some stored \<and> \<not> truthy stored
      \<and> setupBuffers w [] = (Inr buffers, allocatedBuffers, w1)
      \<and> getOrCreatePipeline operationName createPipeline (rm, w1) = (Inr pipelineResult, rm1, w2)
      \<and> pipelineResult \<noteq> JNull \<and> pipelineResult \<noteq> JUndefined
      \<and> executeCompute buffers pipelineResult = Inr result \<and> \<not> truthy result
      \<and> executeWebGPUCompute operationName setupBuffers createPipeline executeCompute fp (rm, w)
          = (outcome, rm', w')"
  then have core: "webgpuCore rm = Some True" and sc: "shouldCacheResult fp"
    and cm: "cacheManager rm" and c: "cache rm = Some m"
    and e: "map_of m ?key = Some stored" and fs: "\<not> truthy stored"
    and su: "setupBuffers w [] = (Inr buffers, allocatedBuffers, w1)"
    and pl: "getOrCreatePipeline operationName createPipeline (rm, w1)
               = (Inr pipelineResult, rm1, w2)"
    and pn: "pipelineResult \<noteq> JNull" "pipelineResult \<noteq> JUndefined"
    and ex: "executeCompute buffers pipelineResult = Inr result" and fr: "\<not> truthy result"
    and run: "executeWebGPUCompute operationName setupBuffers createPipeline executeCompute fp
                (rm, w) = (outcome, rm', w')" by simp_all
  from falsy_entry_is_a_miss [OF cm c e fs]
  have miss: "cache_get rm ?key = Inr JNull" "cache_lookup rm ?key = Inr None" by simp_all
  from getOrCreatePipeline_cache [OF cm c pl] obtain m1 where
    p1: "cacheManager rm1" "cache rm1 = Some m1" by blast
  from getOrCreatePipeline_keeps [OF pl] obtain c1 where
    k: "invoked w2 = invoked w1" "rm1 = rm\<lparr>cache := c1\<rparr>" by blast
  from cache_store_keeps_entry [OF p1, of ?key result]
  obtain rms m' where st: "cache_store rm1 ?key result = Inr rms" "cacheManager rms"
    "cache rms = Some m'" "map_of m' ?key = Some result" by blast
  from cache_store_fields [OF st(1)] obtain c' where rms: "rms = rm1\<lparr>cache := c'\<rparr>" by blast
  let ?w = "w2\<lparr>invoked := invoked w2 + 1\<rparr>"
  have tr: "executeWebGPU_try operationName ?key (shouldCacheResult fp) (Inr buffers)
              createPipeline executeCompute (rm, w1) = (Inr result, rms, ?w)"
    using pl pn ex st(1) sc by (simp add: executeWebGPU_try_def)
  obtain r w3 where cl: "cleanupWebGPUBuffers rm allocatedBuffers ?w = (r, w3)"
    by (cases "cleanupWebGPUBuffers rm allocatedBuffers ?w")
  then have cls: "cleanupWebGPUBuffers rms allocatedBuffers ?w = (r, w3)"
    by (simp add: rms k(2) cleanupWebGPUBuffers_cache)
  from cleanupWebGPUBuffers_keeps [OF cl] k(1) have inv: "invoked w3 = invoked w1 + 1" by simp
  from run core sc miss(2) su tr cls
  have res: "outcome = (case r of None \<Rightarrow> Inr result | Some e \<Rightarrow> Inl e)" "rm' = rms" "w' = w3"
    by (auto simp: executeWebGPUCompute_def split: option.splits)
  from falsy_entry_is_a_miss [OF st(2,3,4) fr]
  have again: "cache_lookup rms ?key = Inr None" by simp
  show "cache_get rm ?key = Inr JNull" by (rule miss(1))
  show "invoked w' = invoked w1 + 1" using res inv by simp
  show "outcome = (case fst (cleanupWebGPUBuffers rm allocatedBuffers ?w) of
                        None \<Rightarrow> Inr result | Some e \<Rightarrow> Inl e)"
    using res cl by simp
  show "cacheManager rm'" using res st by simp
  show "\<exists>m'. cache rm' = Some m' \<and> map_of m' ?key = Some result" using res st by simp
  show "cache_lookup rm' ?key = Inr None" using res again by simp
qed

theorem falsy_result_recomputed_witness:
  "\<not> truthy (JNum 0)
   \<and> executeWasmWithMemoryManagement ''dot''
        (handler_setupMemory caching_manager [12, 12] (\<lambda>ptrs. Inr ptrs))
        (\<lambda>memoryInfo. Inr (JNum 0)) ''[[1,0,0],[0,1,0]]''
        (caching_manager\<lparr>cache := Some [(''dot_[[1,0,0],[0,1,0]]'', JNum 0)]\<rparr>,
         quiet_world [48, 64])
     = (Inr (JNum 0),
        caching_manager\<lparr>cache := Some [(''dot_[[1,0,0],[0,1,0]]'', JNum 0)]\<rparr>,
        (quiet_world [])\<lparr>allocated := [WasmAlloc 48 12, WasmAlloc 64 12],
                          released := [FreeMemory 48, FreeMemory 64], invoked := 1\<rparr>)
   \<and> cache_get (caching_manager\<lparr>cache := Some [(''dot_[[1,0,0],[0,1,0]]'', JNum 0)]\<rparr>)
        ''dot_[[1,0,0],[0,1,0]]'' = Inr JNull
   \<and> cache_lookup (caching_manager\<lparr>cache := Some [(''dot_[[1,0,0],[0,1,0]]'', JNum 0)]\<rparr>)
        ''dot_[[1,0,0],[0,1,0]]'' = Inr None
   \<and> executeWebGPUCompute ''dot''
        (handler_setupBuffers caching_manager [(12, 136), (12, 136), (4, 132)]
           (\<lambda>buffers. Inr buffers))
        (Inr (JObj [(''pipeline'', JStr ''p''), (''bindGroupLayout'', JStr ''l'')]))
        (\<lambda>buffers pipelineResult. Inr (JNum 0)) ''[[1,0,0],[0,1,0]]''
        (caching_manager\<lparr>cache := Some
           [(''dot_pipeline'', JObj [(''pipeline'', JStr ''p''), (''bindGroupLayout'', JStr ''l'')]),
            (''gpu_dot_[[1,0,0],[0,1,0]]'', JNum 0)]\<rparr>,
         quiet_world [1, 2, 3])
     = (Inr (JNum 0),
        caching_manager\<lparr>cache := Some
           [(''dot_pipeline'', JObj [(''pipeline'', JStr ''p''), (''bindGroupLayout'', JStr ''l'')]),
            (''gpu_dot_[[1,0,0],[0,1,0]]'', JNum 0)]\<rparr>,
        (quiet_world [])\<lparr>allocated := [CreateBuffer 1 12 136, CreateBuffer 2 12 136,
                                        CreateBuffer 3 4 132],
                          released := [BufferDestroy 1, BufferDestroy 2, BufferDestroy 3],
                          invoked := 1\<rparr>)
   \<and> cache_get (caching_manager\<lparr>cache := Some
           [(''dot_pipeline'', JObj [(''pipeline'', JStr ''p''), (''bindGroupLayout'', JStr ''l'')]),
            (''gpu_dot_[[1,0,0],[0,1,0]]'', JNum 0)]\<rparr>)
        ''gpu_dot_[[1,0,0],[0,1,0]]'' = Inr JNull
   \<and> cache_lookup (caching_manager\<lparr>cache := Some
           [(''dot_pipeline'', JObj [(''pipeline'', JStr ''p''), (''bindGroupLayout'', JStr ''l'')]),
            (''gpu_dot_[[1,0,0],[0,1,0]]'', JNum 0)]\<rparr>)
        ''gpu_dot_[[1,0,0],[0,1,0]]'' = Inr None"
proof -
  let ?fp = "''[[1,0,0],[0,1,0]]''"
  let ?P = "JObj [(''pipeline'', JStr ''p''), (''bindGroupLayout'', JStr ''l'')]"
  let ?m = "[(''dot_[[1,0,0],[0,1,0]]'', JNum 0)]"
  let ?rm = "caching_manager\<lparr>cache := Some ?m\<rparr>"
  let ?w1 = "(quiet_world [])\<lparr>allocated := [WasmAlloc 48 12, WasmAlloc 64 12]\<rparr>"
  let ?W = "(quiet_world [])\<lparr>allocated := [WasmAlloc 48 12, WasmAlloc 64 12],
                          released := [FreeMemory 48, FreeMemory 64], invoked := 1\<rparr>"
  let ?mg = "[(''dot_pipeline'', ?P), (''gpu_dot_[[1,0,0],[0,1,0]]'', JNum 0)]"
  let ?rmg = "caching_manager\<lparr>cache := Some ?mg\<rparr>"
  let ?g1 = "(quiet_world [])\<lparr>allocated := [CreateBuffer 1 12 136, CreateBuffer 2 12 136,
                                        CreateBuffer 3 4 132]\<rparr>"
  let ?G = "(quiet_world [])\<lparr>allocated := [CreateBuffer 1 12 136, CreateBuffer 2 12 136,
                                        CreateBuffer 3 4 132],
                          released := [BufferDestroy 1, BufferDestroy 2, BufferDestroy 3],
                          invoked := 1\<rparr>"
  have f: "\<not> truthy (JNum 0)" by simp
  have run: "executeWasmWithMemoryManagement ''dot''
        (handler_setupMemory caching_manager [12, 12] (\<lambda>ptrs. Inr ptrs))
        (\<lambda>memoryInfo. Inr (JNum 0)) ?fp (?rm, quiet_world [48, 64])
     = (Inr (JNum 0), ?rm, ?W)"
    by (simp add: executeWasmWithMemoryManagement_def
      cache_lookup_def cache_get_def cache_store_def cache_set_def cache_full_def
      caching_manager_def HyperGpuResourceManager_def quiet_world_def handler_setupMemory_def
      allocate_def wasm_alloc_def has_export_def executeWasm_try_def release_pointer_def
      free_memory_def)
  have prem: "cacheManager ?rm \<and> cache ?rm = Some ?m
      \<and> map_of ?m (''dot'' @ ''_'' @ ?fp) = Some (JNum 0) \<and> \<not> truthy (JNum 0)
      \<and> handler_setupMemory caching_manager [12, 12] (\<lambda>ptrs. Inr ptrs) (quiet_world [48, 64]) []
          = (Inr [48, 64], [(48, 12), (64, 12)], ?w1)
      \<and> (\<lambda>memoryInfo :: nat list. Inr (JNum 0) :: error + jsval) [48, 64] = Inr (JNum 0)
      \<and> \<not> truthy (JNum 0)
      \<and> executeWasmWithMemoryManagement ''dot''
          (handler_setupMemory caching_manager [12, 12] (\<lambda>ptrs. Inr ptrs))
          (\<lambda>memoryInfo. Inr (JNum 0)) ?fp (?rm, quiet_world [48, 64])
          = (Inr (JNum 0), ?rm, ?W)"
    using run
    by (simp add: caching_manager_def HyperGpuResourceManager_def quiet_world_def
        handler_setupMemory_def allocate_def wasm_alloc_def has_export_def)
  note tw = falsy_result_recomputed
      [where methodName = "''dot''" and fp = ?fp and rm = ?rm and m = ?m and stored = "JNum 0"
         and setupMemory = "handler_setupMemory caching_manager [12, 12] (\<lambda>ptrs. Inr ptrs)"
         and w = "quiet_world [48, 64]" and memoryInfo = "[48, 64]"
         and allocatedPointers = "[(48, 12), (64, 12)]" and ?w1.0 = ?w1
         and executeWasm = "\<lambda>memoryInfo. Inr (JNum 0)" and result = "JNum 0"
         and outcome = "Inr (JNum 0)" and rm' = ?rm and w' = ?W,
       THEN conjunct1, THEN mp, OF prem]
  have grun: "executeWebGPUCompute ''dot''
        (handler_setupBuffers caching_manager [(12, 136), (12, 136), (4, 132)]
           (\<lambda>buffers. Inr buffers))
        (Inr ?P) (\<lambda>buffers pipelineResult. Inr (JNum 0)) ?fp (?rmg, quiet_world [1, 2, 3])
     = (Inr (JNum 0), ?rmg, ?G)"
    by (simp add: executeWebGPUCompute_def cache_lookup_def cache_get_def cache_store_def
        cache_set_def cache_full_def shouldCacheResult_def getOrCreatePipeline_def
        caching_manager_def HyperGpuResourceManager_def quiet_world_def handler_setupBuffers_def
        allocateWebGPUBuffer_def createBuffer_def executeWebGPU_try_def release_buffer_def
        destroy_def)
  have gprem: "webgpuCore ?rmg = Some True \<and> shouldCacheResult ?fp
      \<and> cacheManager ?rmg \<and> cache ?rmg = Some ?mg
      \<and> map_of ?mg (''gpu_'' @ ''dot'' @ ''_'' @ ?fp) = Some (JNum 0) \<and> \<not> truthy (JNum 0)
      \<and> handler_setupBuffers caching_manager [(12, 136), (12, 136), (4, 132)]
           (\<lambda>buffers. Inr buffers) (quiet_world [1, 2, 3]) []
          = (Inr [1, 2, 3], [(1, 12, 136), (2, 12, 136), (3, 4, 132)], ?g1)
      \<and> getOrCreatePipeline ''dot'' (Inr ?P) (?rmg, ?g1) = (Inr ?P, ?rmg, ?g1)
      \<and> ?P \<noteq> JNull \<and> ?P \<noteq> JUndefined
      \<and> (\<lambda>(buffers :: nat list) pipelineResult :: jsval. Inr (JNum 0) :: error + jsval)
            [1, 2, 3] ?P = Inr (JNum 0)
      \<and> \<not> truthy (JNum 0)
      \<and> executeWebGPUCompute ''dot''
          (handler_setupBuffers caching_manager [(12, 136), (12, 136), (4, 132)]
             (\<lambda>buffers. Inr buffers))
          (Inr ?P) (\<lambda>buffers pipelineResult. Inr (JNum 0)) ?fp (?rmg, quiet_world [1, 2, 3])
          = (Inr (JNum 0), ?rmg, ?G)"
    using grun
    by (simp add: caching_manager_def HyperGpuResourceManager_def quiet_world_def
        shouldCacheResult_def handler_setupBuffers_def allocateWebGPUBuffer_def createBuffer_def
        getOrCreatePipeline_def cache_lookup_def cache_get_def)
  note tg = falsy_result_recomputed
      [where operationName = "''dot''" and fp = ?fp and rm = ?rmg and m = ?mg
         and stored = "JNum 0"
         and setupBuffers = "handler_setupBuffers caching_manager
                               [(12, 136), (12, 136), (4, 132)] (\<lambda>buffers. Inr buffers)"
         and w = "quiet_world [1, 2, 3]" and buffers = "[1, 2, 3]"
         and allocatedBuffers = "[(1, 12, 136), (2, 12, 136), (3, 4, 132)]" and ?w1.0 = ?g1
         and createPipeline = "Inr ?P" and pipelineResult = ?P and ?rm1.0 = ?rmg
         and ?w2.0 = ?g1
         and executeCompute = "\<lambda>buffers pipelineResult. Inr (JNum 0)" and result = "JNum 0"
         and outcome = "Inr (JNum 0)" and rm' = ?rmg and w' = ?G,
       THEN conjunct2, THEN mp, OF gprem]
  from tw have w1: "cache_get ?rm ''dot_[[1,0,0],[0,1,0]]'' = Inr JNull"
    and w2: "cache_lookup ?rm ''dot_[[1,0,0],[0,1,0]]'' = Inr None" by simp_all
  from tg have g1: "cache_get ?rmg ''gpu_dot_[[1,0,0],[0,1,0]]'' = Inr JNull"
    and g2: "cache_lookup ?rmg ''gpu_dot_[[1,0,0],[0,1,0]]'' = Inr None" by simp_all
  show ?thesis
    using f run w1 w2 grun g1 g2 by (intro conjI) assumption+
qed

lemma length_long_fingerprint: "length long_fingerprint = 10001"
  by (simp add: long_fingerprint_def length_concat sum_list_replicate)

text \<open>
  C6 at a failing input. The linear-memory framework stores the result of a call whose
  serialised fingerprint has 10001 characters, a size for which \<open>shouldCacheResult\<close> is
  false: \<open>executeWasmWithMemoryManagement\<close> never consults it.
\<close>

theorem wasm_framework_stores_large_fingerprint:
  "length long_fingerprint = 10001 \<and> \<not> shouldCacheResult long_fingerprint
   \<and> handleNormalizeVector 5000 (\<lambda>ptrs. Inr ptrs)
        (\<lambda>memoryInfo. Inr (JArr (replicate 5000 (JNum 0)))) long_fingerprint
        (caching_manager, quiet_world [1024])
     = (Inr (JArr (replicate 5000 (JNum 0))),
        caching_manager\<lparr>cache := Some [(''normalizeVector_'' @ long_fingerprint,
                                          JArr (replicate 5000 (JNum 0)))]\<rparr>,
        (quiet_world [])\<lparr>allocated := [WasmAlloc 1024 20000], released := [FreeMemory 1024],
                          invoked := 1\<rparr>)"
proof -
  let ?R = "JArr (replicate 5000 (JNum 0))"
  let ?key = "''normalizeVector'' @ ''_'' @ long_fingerprint"
  have miss: "cache_lookup caching_manager ?key = Inr None"
    by (simp add: cache_lookup_def cache_get_def caching_manager_def HyperGpuResourceManager_def)
  have su: "handler_setupMemory caching_manager [5000 * 4] (\<lambda>ptrs. Inr ptrs) (quiet_world [1024]) []
      = (Inr [1024], [(1024, 20000)], (quiet_world [])\<lparr>allocated := [WasmAlloc 1024 20000]\<rparr>)"
    by (simp add: handler_setupMemory_def allocate_def wasm_alloc_def has_export_def
        caching_manager_def HyperGpuResourceManager_def quiet_world_def)
  have st: "cache_store caching_manager ?key ?R
      = Inr (caching_manager\<lparr>cache := Some [(?key, ?R)]\<rparr>)"
    by (simp add: cache_store_def cache_set_def cache_full_def caching_manager_def
        HyperGpuResourceManager_def)
  have cl: "cleanupWasmMemory (caching_manager\<lparr>cache := Some [(?key, ?R)]\<rparr>) [(1024, 20000)]
          (((quiet_world [])\<lparr>allocated := [WasmAlloc 1024 20000]\<rparr>)
             \<lparr>invoked := invoked ((quiet_world [])\<lparr>allocated := [WasmAlloc 1024 20000]\<rparr>) + 1\<rparr>)
      = (None, (quiet_world [])\<lparr>allocated := [WasmAlloc 1024 20000],
                  released := [FreeMemory 1024], invoked := 1\<rparr>)"
    by (simp add: release_pointer_def free_memory_def has_export_def caching_manager_def
        HyperGpuResourceManager_def quiet_world_def)
  have run: "executeWasmWithMemoryManagement ''normalizeVector''
        (handler_setupMemory caching_manager [5000 * 4] (\<lambda>ptrs. Inr ptrs))
        (\<lambda>memoryInfo. Inr ?R) long_fingerprint (caching_manager, quiet_world [1024])
     = (Inr ?R, caching_manager\<lparr>cache := Some [(?key, ?R)]\<rparr>,
        (quiet_world [])\<lparr>allocated := [WasmAlloc 1024 20000], released := [FreeMemory 1024],
                          invoked := 1\<rparr>)"
    using executeWasm_miss_success
      [where setupMemory = "handler_setupMemory caching_manager [5000 * 4] (\<lambda>ptrs. Inr ptrs)"
         and executeWasm = "\<lambda>memoryInfo. Inr ?R" and methodName = "''normalizeVector''",
       OF miss su refl st]
    unfolding cl by simp
  have "\<not> shouldCacheResult long_fingerprint"
    by (simp add: shouldCacheResult_def length_long_fingerprint)
  then show ?thesis
    using run length_long_fingerprint by (simp add: handleNormalizeVector_def)
qed

text \<open>
  The GPU framework does apply the size check: with a fingerprint above the limit the only entry
  it can add to the cache is the compiled pipeline.
\<close>

lemma gpu_framework_stores_only_the_pipeline:
  assumes "\<not> shouldCacheResult fp"
    and "executeWebGPUCompute operationName setupBuffers createPipeline executeCompute fp (rm, w)
           = (outcome, rm', w')"
  shows "rm' = rm \<or> (\<exists>built. cache_store rm (operationName @ ''_pipeline'') built = Inr rm')"
proof (cases "webgpuCore rm = Some True")
  case False
  with assms show ?thesis by (simp add: executeWebGPUCompute_def)
next
  case True
  obtain sr bs ws where su: "setupBuffers w [] = (sr, bs, ws)" by (cases "setupBuffers w []")
  let ?key = "''gpu_'' @ operationName @ ''_'' @ fp"
  obtain out rmt wt where t: "executeWebGPU_try operationName ?key False sr
          createPipeline executeCompute (rm, ws) = (out, rmt, wt)"
    by (cases "executeWebGPU_try operationName ?key False sr
          createPipeline executeCompute (rm, ws)")
  from assms True su t have eq: "rm' = rmt"
    by (auto simp: executeWebGPUCompute_def split: prod.splits option.splits)
  show ?thesis
  proof (cases sr)
    case (Inl e)
    with t eq show ?thesis by (simp add: executeWebGPU_try_def)
  next
    case (Inr buffers)
    obtain r1 rm1 w1 where p: "getOrCreatePipeline operationName createPipeline (rm, ws) = (r1, rm1, w1)"
      by (cases "getOrCreatePipeline operationName createPipeline (rm, ws)")
    from t Inr p have "rmt = rm1"
      by (auto simp: executeWebGPU_try_def split: sum.splits if_splits)
    moreover from p have "rm1 = rm \<or> (\<exists>built. cache_store rm (operationName @ ''_pipeline'') built = Inr rm1)"
      by (auto simp: getOrCreatePipeline_def split: sum.splits option.splits)
    ultimately show ?thesis using eq by simp
  qed
qed

section \<open>Facts about the pipeline cache\<close>

lemma cache_set_at_limit:
  assumes "cache this = Some ((oldest, v) # rest)" and "maxSize this = Some n"
    and "n \<le> Suc (length rest)" and "distinct (oldest # map fst rest)" and "key \<noteq> oldest"
  shows "\<exists>this' m'. cache_set this key data = Inr this' \<and> cache this' = Some m'
           \<and> m' = AList.update key data rest \<and> map_of m' oldest = None"
proof -
  have d: "distinct (map fst ((oldest, v) # rest))" using assms(4) by simp
  have ev: "cache_evict ((oldest, v) # rest) = rest"
    using cache_evict_tl [OF d] by simp
  have full: "cache_full this ((oldest, v) # rest)"
    using assms(2,3) by (simp add: cache_full_def)
  have "map_of rest oldest = None"
    using assms(4) by (simp add: map_of_eq_None_iff)
  then have "map_of (AList.update key data rest) oldest = None"
    using assms(5) by (simp add: map_of_update_other)
  then show ?thesis
    using assms(1) ev full by (simp add: cache_set_def)
qed

text \<open>
  On the manager as constructed the cache check of \<open>getOrCreatePipeline\<close> raises
  \<open>TypeError\<close> and the builder is not called.
\<close>

lemma getOrCreatePipeline_on_manager_raises:
  "cacheManager rm \<Longrightarrow> cache rm = None \<Longrightarrow>
     getOrCreatePipeline operationName createPipelineFunc (rm, w) = (Inl TypeError, rm, w)"
  by (simp add: getOrCreatePipeline_def cache_lookup_def cache_get_def)

text \<open>
  C5, as amended. On a manager that has a cache manager whose \<open>get\<close> and \<open>set\<close>
  act on a receiver holding the map, compiled pipelines are keyed by the operation name
  alone (\<open>operationName_pipeline\<close>) and live in the cache that also holds the data
  results. A stored pipeline value that is truthy is returned without calling the builder;
  when the entry is absent, or holds a falsy value, the builder is called once and what it
  built is stored through the same \<open>set\<close> as the results; and when the map holds 50
  entries under distinct keys with the pipeline as the oldest and the limit is 50, storing
  a data result under another key evicts the pipeline.
\<close>

theorem pipeline_cached_in_result_cache:
  assumes "cacheManager rm" and "cache rm = Some m"
  shows "(map_of m (operationName @ ''_pipeline'') = Some pipelineResult \<and> truthy pipelineResult
          \<longrightarrow> getOrCreatePipeline operationName createPipelineFunc (rm, w)
                = (Inr pipelineResult, rm, w))
       \<and> (map_of m (operationName @ ''_pipeline'') = None
          \<longrightarrow> (\<exists>rm'. cache_store rm (operationName @ ''_pipeline'') built = Inr rm'
                 \<and> getOrCreatePipeline operationName (Inr built) (rm, w)
                     = (Inr built, rm', w\<lparr>pipelines_built := pipelines_built w + 1\<rparr>)))
       \<and> (map_of m (operationName @ ''_pipeline'') = Some stored \<and> \<not> truthy stored
          \<longrightarrow> (\<exists>rm'. cache_store rm (operationName @ ''_pipeline'') built = Inr rm'
                 \<and> getOrCreatePipeline operationName (Inr built) (rm, w)
                     = (Inr built, rm', w\<lparr>pipelines_built := pipelines_built w + 1\<rparr>)))
       \<and> (m = (operationName @ ''_pipeline'', pipelineResult) # rest \<and> maxSize rm = Some 50
            \<and> length rest = 49 \<and> distinct (map fst m)
            \<and> dataKey \<noteq> operationName @ ''_pipeline''
          \<longrightarrow> (\<exists>rm'. cache_store rm dataKey result = Inr rm'
                 \<and> cache_lookup rm' (operationName @ ''_pipeline'') = Inr None))"
proof (intro conjI impI)
  assume "map_of m (operationName @ ''_pipeline'') = Some pipelineResult \<and> truthy pipelineResult"
  then have "cache_lookup rm (operationName @ ''_pipeline'') = Inr (Some pipelineResult)"
    using assms by (simp add: cache_lookup_def cache_get_def)
  then show "getOrCreatePipeline operationName createPipelineFunc (rm, w)
                = (Inr pipelineResult, rm, w)"
    by (simp add: getOrCreatePipeline_def)
next
  assume "map_of m (operationName @ ''_pipeline'') = None"
  then have miss: "cache_lookup rm (operationName @ ''_pipeline'') = Inr None"
    using assms by (simp add: cache_lookup_def cache_get_def)
  from cache_store_keeps_entry [OF assms, of "operationName @ ''_pipeline''" built]
  obtain rm' where st: "cache_store rm (operationName @ ''_pipeline'') built = Inr rm'" by blast
  with miss have "getOrCreatePipeline operationName (Inr built) (rm, w)
                     = (Inr built, rm', w\<lparr>pipelines_built := pipelines_built w + 1\<rparr>)"
    by (simp add: getOrCreatePipeline_def)
  with st show "\<exists>rm'. cache_store rm (operationName @ ''_pipeline'') built = Inr rm'
                 \<and> getOrCreatePipeline operationName (Inr built) (rm, w)
                     = (Inr built, rm', w\<lparr>pipelines_built := pipelines_built w + 1\<rparr>)"
    by blast
next
  assume "map_of m (operationName @ ''_pipeline'') = Some stored \<and> \<not> truthy stored"
  then have miss: "cache_lookup rm (operationName @ ''_pipeline'') = Inr None"
    using assms falsy_entry_is_a_miss by blast
  from cache_store_keeps_entry [OF assms, of "operationName @ ''_pipeline''" built]
  obtain rm' where st: "cache_store rm (operationName @ ''_pipeline'') built = Inr rm'" by blast
  with miss have "getOrCreatePipeline operationName (Inr built) (rm, w)
                     = (Inr built, rm', w\<lparr>pipelines_built := pipelines_built w + 1\<rparr>)"
    by (simp add: getOrCreatePipeline_def)
  with st show "\<exists>rm'. cache_store rm (operationName @ ''_pipeline'') built = Inr rm'
                 \<and> getOrCreatePipeline operationName (Inr built) (rm, w)
                     = (Inr built, rm', w\<lparr>pipelines_built := pipelines_built w + 1\<rparr>)"
    by blast
next
  assume a: "m = (operationName @ ''_pipeline'', pipelineResult) # rest \<and> maxSize rm = Some 50
            \<and> length rest = 49 \<and> distinct (map fst m)
            \<and> dataKey \<noteq> operationName @ ''_pipeline''"
  then have c: "cache rm = Some ((operationName @ ''_pipeline'', pipelineResult) # rest)"
    and s: "maxSize rm = Some 50" and l: "50 \<le> Suc (length rest)"
    and d: "distinct ((operationName @ ''_pipeline'') # map fst rest)"
    and k: "dataKey \<noteq> operationName @ ''_pipeline''"
    using assms(2) by force+
  from cache_set_at_limit [OF c s l d k, of result]
  obtain rm' m' where r: "cache_set rm dataKey result = Inr rm'" "cache rm' = Some m'"
    "map_of m' (operationName @ ''_pipeline'') = None" by blast
  from r(1) have st: "cache_store rm dataKey result = Inr rm'"
    using assms(1) by (simp add: cache_store_def)
  have "cache_lookup rm' (operationName @ ''_pipeline'') = Inr None"
    using r(2,3) by (simp add: cache_lookup_def cache_get_def)
  with st show "\<exists>rm'. cache_store rm dataKey result = Inr rm'
                 \<and> cache_lookup rm' (operationName @ ''_pipeline'') = Inr None"
    by blast
qed

lemma pipeline_first_manager_facts:
  "cacheManager pipeline_first_manager"
  "maxSize pipeline_first_manager = Some 50"
  "cache pipeline_first_manager = Some ((''vector_add_pipeline'', vector_add_pipeline)
        # map (\<lambda>i. (replicate (Suc i) CHR ''k'', JNum 1)) [0..<49])"
  "wasmMemoryPool pipeline_first_manager = None"
  "has_export pipeline_first_manager ''wasm_alloc''"
  "has_export pipeline_first_manager ''free_memory''"
  by (simp_all add: pipeline_first_manager_def caching_manager_def HyperGpuResourceManager_def
      has_export_def)

lemma pipeline_first_keys:
  "distinct (map fst ((''vector_add_pipeline'', vector_add_pipeline)
        # map (\<lambda>i. (replicate (Suc i) CHR ''k'', JNum 1)) [0..<49]))"
  "''normalizeVector_[2,0,0]'' \<notin> fst ` set ((''vector_add_pipeline'', vector_add_pipeline)
        # map (\<lambda>i. (replicate (Suc i) CHR ''k'', JNum 1)) [0..<49])"
  by (auto simp: distinct_map inj_on_def comp_def)


theorem pipeline_cached_in_result_cache_witness:
  "getOrCreatePipeline ''vector_add'' (Inl (Error ''not built''))
       (pipeline_first_manager, quiet_world [])
     = (Inr vector_add_pipeline, pipeline_first_manager, quiet_world [])
   \<and> (\<exists>rm'. cache_store pipeline_first_manager ''normalizeVector_[2,0,0]''
                (JArr [JNum 1, JNum 0, JNum 0]) = Inr rm'
            \<and> cache_lookup rm' ''vector_add_pipeline'' = Inr None)
   \<and> (\<exists>rm'. cache_store caching_manager ''vector_add_pipeline'' vector_add_pipeline = Inr rm'
            \<and> getOrCreatePipeline ''vector_add'' (Inr vector_add_pipeline)
                 (caching_manager, quiet_world [])
               = (Inr vector_add_pipeline, rm', (quiet_world [])\<lparr>pipelines_built := 1\<rparr>))
   \<and> (\<exists>rm'. cache_store (caching_manager\<lparr>cache := Some [(''vector_add_pipeline'', JNull)]\<rparr>)
                ''vector_add_pipeline'' vector_add_pipeline = Inr rm'
            \<and> getOrCreatePipeline ''vector_add'' (Inr vector_add_pipeline)
                 (caching_manager\<lparr>cache := Some [(''vector_add_pipeline'', JNull)]\<rparr>,
                  quiet_world [])
               = (Inr vector_add_pipeline, rm', (quiet_world [])\<lparr>pipelines_built := 1\<rparr>))"
proof -
  let ?rest = "map (\<lambda>i. (replicate (Suc i) CHR ''k'', JNum 1)) [0..<49]"
  let ?m = "(''vector_add_pipeline'', vector_add_pipeline) # ?rest"
  let ?rn = "caching_manager\<lparr>cache := Some [(''vector_add_pipeline'', JNull)]\<rparr>"
  note f = pipeline_first_manager_facts
  have tp: "truthy vector_add_pipeline" by (simp add: vector_add_pipeline_def)
  have cm: "cacheManager caching_manager" "cache caching_manager = Some []"
    by (simp_all add: caching_manager_def HyperGpuResourceManager_def)
  have cn: "cacheManager ?rn" "cache ?rn = Some [(''vector_add_pipeline'', JNull)]"
    by (simp_all add: caching_manager_def HyperGpuResourceManager_def)
  have a: "getOrCreatePipeline ''vector_add'' (Inl (Error ''not built''))
       (pipeline_first_manager, quiet_world [])
     = (Inr vector_add_pipeline, pipeline_first_manager, quiet_world [])"
    using pipeline_cached_in_result_cache
        [where operationName = "''vector_add''" and pipelineResult = vector_add_pipeline,
         OF f(1) f(3), THEN conjunct1] tp
    by simp
  have c: "\<exists>rm'. cache_store pipeline_first_manager ''normalizeVector_[2,0,0]''
                (JArr [JNum 1, JNum 0, JNum 0]) = Inr rm'
            \<and> cache_lookup rm' ''vector_add_pipeline'' = Inr None"
    using pipeline_cached_in_result_cache
        [where operationName = "''vector_add''" and pipelineResult = vector_add_pipeline
          and rest = ?rest and dataKey = "''normalizeVector_[2,0,0]''",
         OF f(1) f(3), THEN conjunct2, THEN conjunct2, THEN conjunct2]
      f(2) pipeline_first_keys(1)
    by simp
  have b: "\<exists>rm'. cache_store caching_manager ''vector_add_pipeline'' vector_add_pipeline = Inr rm'
            \<and> getOrCreatePipeline ''vector_add'' (Inr vector_add_pipeline)
                 (caching_manager, quiet_world [])
               = (Inr vector_add_pipeline, rm', (quiet_world [])\<lparr>pipelines_built := 1\<rparr>)"
    using pipeline_cached_in_result_cache
        [where operationName = "''vector_add''" and built = vector_add_pipeline
          and w = "quiet_world []", OF cm, THEN conjunct2, THEN conjunct1]
    by (simp add: quiet_world_def)
  have d: "\<exists>rm'. cache_store ?rn ''vector_add_pipeline'' vector_add_pipeline = Inr rm'
            \<and> getOrCreatePipeline ''vector_add'' (Inr vector_add_pipeline) (?rn, quiet_world [])
               = (Inr vector_add_pipeline, rm', (quiet_world [])\<lparr>pipelines_built := 1\<rparr>)"
    using pipeline_cached_in_result_cache
        [where operationName = "''vector_add''" and built = vector_add_pipeline
          and stored = JNull and w = "quiet_world []", OF cn,
         THEN conjunct2, THEN conjunct2, THEN conjunct1]
    by (simp add: quiet_world_def)
  from a c b d show ?thesis by blast
qed

text \<open>
  C5 as stated fails: with a full cache whose oldest entry is the pipeline of
  \<^verbatim>\<open>vector_add\<close>, one call of \<^verbatim>\<open>handleNormalizeVector\<close> stores its result and the
  pipeline is gone.
\<close>

theorem pipeline_evicted_by_data_counterexample:
  "cache_lookup pipeline_first_manager ''vector_add_pipeline'' = Inr (Some vector_add_pipeline)
   \<and> fst (executeWasmWithMemoryManagement ''normalizeVector''
            (handler_setupMemory pipeline_first_manager [12] (\<lambda>ptrs. Inr ptrs))
            (\<lambda>memoryInfo. Inr (JArr [JNum 1, JNum 0, JNum 0])) ''[2,0,0]''
            (pipeline_first_manager, quiet_world [1024]))
       = Inr (JArr [JNum 1, JNum 0, JNum 0])
   \<and> cache_lookup
        (fst (snd (executeWasmWithMemoryManagement ''normalizeVector''
            (handler_setupMemory pipeline_first_manager [12] (\<lambda>ptrs. Inr ptrs))
            (\<lambda>memoryInfo. Inr (JArr [JNum 1, JNum 0, JNum 0])) ''[2,0,0]''
            (pipeline_first_manager, quiet_world [1024]))))
        ''vector_add_pipeline''
       = Inr None"
proof -
  let ?rest = "map (\<lambda>i. (replicate (Suc i) CHR ''k'', JNum 1)) [0..<49]"
  let ?m = "(''vector_add_pipeline'', vector_add_pipeline) # ?rest"
  let ?R = "JArr [JNum 1, JNum 0, JNum 0]"
  let ?key = "''normalizeVector'' @ ''_'' @ ''[2,0,0]''"
  note f = pipeline_first_manager_facts
  have tp: "truthy vector_add_pipeline" by (simp add: vector_add_pipeline_def)
  have hit: "cache_lookup pipeline_first_manager ''vector_add_pipeline''
               = Inr (Some vector_add_pipeline)"
    using f(1,3) tp by (simp add: cache_lookup_def cache_get_def)
  have absent: "map_of ?m ''normalizeVector_[2,0,0]'' = None"
    using pipeline_first_keys(2) by (rule iffD2 [OF map_of_eq_None_iff])
  have "cache_lookup pipeline_first_manager ''normalizeVector_[2,0,0]'' = Inr None"
    unfolding cache_lookup_def cache_get_def f(3) using f(1) absent by simp
  then have miss: "cache_lookup pipeline_first_manager ?key = Inr None" by simp
  have su: "handler_setupMemory pipeline_first_manager [12] (\<lambda>ptrs. Inr ptrs) (quiet_world [1024]) []
      = (Inr [1024], [(1024, 12)], (quiet_world [])\<lparr>allocated := [WasmAlloc 1024 12]\<rparr>)"
    using f(4,5) by (simp add: handler_setupMemory_def allocate_def wasm_alloc_def quiet_world_def)
  have d: "distinct (''vector_add_pipeline'' # map fst ?rest)"
    using pipeline_first_keys(1) by simp
  have l: "50 \<le> Suc (length ?rest)" by simp
  have k: "?key \<noteq> ''vector_add_pipeline''" by simp
  from cache_set_at_limit [OF f(3) f(2) l d k, of ?R]
  obtain rm' m' where r: "cache_set pipeline_first_manager ?key ?R = Inr rm'"
    "cache rm' = Some m'" "map_of m' ''vector_add_pipeline'' = None" by blast
  have st: "cache_store pipeline_first_manager ?key ?R = Inr rm'"
    using r(1) f(1) by (simp add: cache_store_def)
  have gone: "cache_lookup rm' ''vector_add_pipeline'' = Inr None"
    using r(2,3) by (simp add: cache_lookup_def cache_get_def)
  from cache_store_fields [OF st] obtain c where rm': "rm' = pipeline_first_manager\<lparr>cache := c\<rparr>"
    by blast
  let ?w = "((quiet_world [])\<lparr>allocated := [WasmAlloc 1024 12]\<rparr>)
               \<lparr>invoked := invoked ((quiet_world [])\<lparr>allocated := [WasmAlloc 1024 12]\<rparr>) + 1\<rparr>"
  have cl: "cleanupWasmMemory rm' [(1024, 12)] ?w
      = (None, ?w\<lparr>released := released ?w @ [FreeMemory 1024]\<rparr>)"
    unfolding rm' cleanupWasmMemory_cache
    by (simp add: release_pointer_def free_memory_def f(4,6))
  have run: "executeWasmWithMemoryManagement ''normalizeVector''
            (handler_setupMemory pipeline_first_manager [12] (\<lambda>ptrs. Inr ptrs))
            (\<lambda>memoryInfo. Inr ?R) ''[2,0,0]'' (pipeline_first_manager, quiet_world [1024])
       = (Inr ?R, rm', ?w\<lparr>released := released ?w @ [FreeMemory 1024]\<rparr>)"
    using executeWasm_miss_success
      [where setupMemory = "handler_setupMemory pipeline_first_manager [12] (\<lambda>ptrs. Inr ptrs)"
         and executeWasm = "\<lambda>memoryInfo. Inr ?R" and methodName = "''normalizeVector''"
         and fp = "''[2,0,0]''", OF miss su refl st]
    unfolding cl by simp
  show ?thesis
    unfolding run using hit gone by simp
qed

end
